theory Spec2Isabelle
  imports Main
begin

section \<open>JavaScript strings\<close>

text \<open>
  A JavaScript string is a sequence of UTF-16 code units; \<open>.length\<close> counts code units.
  A code unit is modelled as a natural number (below \<open>65536\<close> in every string the
  program can hold). String literals of the source are pure ASCII wherever the model
  spells them out; \<open>js\<close> turns such a literal into its code units.
\<close>

type_synonym jsstring = "nat list"

definition js :: "string \<Rightarrow> jsstring" where
  "js s = map of_char s"

text \<open>\<^verbatim>\<open>s.startsWith(k)\<close> and \<^verbatim>\<open>s.includes(k)\<close>: \<open>k\<close> occurs as a contiguous run of \<open>s\<close>.\<close>

fun startsWith :: "jsstring \<Rightarrow> jsstring \<Rightarrow> bool" where
  "startsWith s [] = True"
| "startsWith [] (k # ks) = False"
| "startsWith (c # cs) (k # ks) = (c = k \<and> startsWith cs ks)"

fun includes_js :: "jsstring \<Rightarrow> jsstring \<Rightarrow> bool" where
  "includes_js [] k = (k = [])"
| "includes_js (c # cs) k = (startsWith (c # cs) k \<or> includes_js cs k)"

text \<open>
  \<^verbatim>\<open>toLowerCase\<close> is the platform's full Unicode lower-casing. The functions below take it
  as a parameter; \<open>ascii_lower\<close> is its restriction to ASCII letters, used where a concrete
  input is evaluated.
\<close>

definition ascii_lower :: "jsstring \<Rightarrow> jsstring" where
  "ascii_lower s = map (\<lambda>c. if 65 \<le> c \<and> c \<le> 90 then c + 32 else c) s"

text \<open>
  \<^verbatim>\<open>trim\<close> removes the white space and line terminators of ECMAScript from both ends:
  U+0009..U+000D, U+0020, U+00A0, U+1680, U+2000..U+200A, U+2028, U+2029, U+202F, U+205F,
  U+3000 and U+FEFF.
\<close>

definition is_js_space :: "nat \<Rightarrow> bool" where
  "is_js_space c \<longleftrightarrow>
     (9 \<le> c \<and> c \<le> 13) \<or> c = 32 \<or> c = 160 \<or> c = 5760 \<or> (8192 \<le> c \<and> c \<le> 8202)
     \<or> c = 8232 \<or> c = 8233 \<or> c = 8239 \<or> c = 8287 \<or> c = 12288 \<or> c = 65279"

definition trim :: "jsstring \<Rightarrow> jsstring" where
  "trim s = rev (dropWhile is_js_space (rev (dropWhile is_js_space s)))"

section \<open>JavaScript numbers\<close>

text \<open>
  The numbers the modelled code puts into strings are integers or infinite: configuration
  values, \<^verbatim>\<open>Date.now()\<close>, counters, and what \<^verbatim>\<open>parseInt\<close> returns (\<^verbatim>\<open>NaN\<close> apart, which is
  modelled as no number). \<open>Finite v\<close> is the integer \<open>v\<close>; \<^verbatim>\<open>parseInt\<close> of a very long run
  of digits is \<^verbatim>\<open>Infinity\<close>.
\<close>

datatype jsnumber = Finite int | PosInfinity | NegInfinity

text \<open>\<^verbatim>\<open>x > 0\<close>, and \<open>x\<close> read as a condition (zero is falsy).\<close>

fun positive :: "jsnumber \<Rightarrow> bool" where
  "positive (Finite v) = (v > 0)"
| "positive PosInfinity = True"
| "positive NegInfinity = False"

fun truthy :: "jsnumber \<Rightarrow> bool" where
  "truthy (Finite v) = (v \<noteq> 0)"
| "truthy PosInfinity = True"
| "truthy NegInfinity = True"

fun decimal :: "nat \<Rightarrow> jsstring" where
  "decimal n = (if n < 10 then [48 + n] else decimal (n div 10) @ [48 + n mod 10])"

declare decimal.simps [simp del]

text \<open>
  A number in a template literal. An integer of magnitude up to \<open>2\<^sup>5\<^sup>3\<close> is printed as
  its decimal digits. Beyond that the platform prints the shortest digits that read back
  as the same number, and from \<open>10\<^sup>2\<^sup>1\<close> on it prints exponent form (\<^verbatim>\<open>1e+21\<close>):
  \<open>large\<close>, a parameter, is what the platform prints there.
\<close>

definition Number_toString :: "(int \<Rightarrow> jsstring) \<Rightarrow> jsnumber \<Rightarrow> jsstring" where
  "Number_toString large x =
     (case x of
        Finite v \<Rightarrow>
          if 0 \<le> v \<and> v \<le> 9007199254740992 then decimal (nat v)
          else if - 9007199254740992 \<le> v \<and> v < 0 then 45 # decimal (nat (- v))
          else large v
      | PosInfinity \<Rightarrow> js ''Infinity''
      | NegInfinity \<Rightarrow> js ''-Infinity'')"

section \<open>Plain objects\<close>

text \<open>
  A property read on a plain object that has no own property of that name finds the
  property \<^verbatim>\<open>Object.prototype\<close> has under that name, if any. All of these are functions or
  objects, so they are truthy; \<^verbatim>\<open>__proto__\<close> is an accessor, the others can be shadowed by an
  assignment.
\<close>

definition Object_prototype_keys :: "string list" where
  "Object_prototype_keys =
     [''constructor'', ''__defineGetter__'', ''__defineSetter__'', ''hasOwnProperty'',
      ''__lookupGetter__'', ''__lookupSetter__'', ''isPrototypeOf'', ''propertyIsEnumerable'',
      ''toString'', ''valueOf'', ''__proto__'', ''toLocaleString'']"

definition inherited :: "jsstring \<Rightarrow> bool" where
  "inherited k \<longleftrightarrow> k \<in> set (map js Object_prototype_keys)"

section \<open>Errors\<close>

text \<open>
  The exceptions the modelled code can meet. \<open>SyntaxError\<close>, \<open>TypeError\<close> and \<open>URIError\<close>
  are thrown by the platform (\<^verbatim>\<open>JSON.parse\<close>, \<^verbatim>\<open>new RegExp\<close>, a property read on \<^verbatim>\<open>null\<close>,
  \<^verbatim>\<open>encodeURIComponent\<close>); the other two are the \<^verbatim>\<open>throw new Error(...)\<close> statements of
  \<^verbatim>\<open>fetchAIResponse\<close> and \<^verbatim>\<open>fetchGeneratedImage\<close>.
\<close>

datatype error =
    SyntaxError
  | TypeError
  | URIError
  | All_API_endpoints_failed
  | All_image_generation_endpoints_failed

section \<open>encodeURIComponent\<close>

text \<open>
  Code units of \<^verbatim>\<open>A-Z a-z 0-9 - _ . ! ~ * ' ( )\<close> are kept. Every other code point is
  written as the percent-escaped octets of its UTF-8 encoding. A high surrogate
  (D800..DBFF) must be followed by a low surrogate (DC00..DFFF), and a low surrogate must
  not stand alone: otherwise the platform throws \<open>URIError\<close>.
\<close>

definition uri_unreserved :: "nat \<Rightarrow> bool" where
  "uri_unreserved c \<longleftrightarrow>
     (65 \<le> c \<and> c \<le> 90) \<or> (97 \<le> c \<and> c \<le> 122) \<or> (48 \<le> c \<and> c \<le> 57)
     \<or> c \<in> {45, 95, 46, 33, 126, 42, 39, 40, 41}"

definition utf8 :: "nat \<Rightarrow> nat list" where
  "utf8 cp =
     (if cp < 128 then [cp]
      else if cp < 2048 then [192 + cp div 64, 128 + cp mod 64]
      else if cp < 65536 then [224 + cp div 4096, 128 + (cp div 64) mod 64, 128 + cp mod 64]
      else [240 + cp div 262144, 128 + (cp div 4096) mod 64, 128 + (cp div 64) mod 64,
            128 + cp mod 64])"

definition hex_digit :: "nat \<Rightarrow> nat" where
  "hex_digit d = (if d < 10 then 48 + d else 55 + d)"

definition percent :: "nat \<Rightarrow> jsstring" where
  "percent octet = [37, hex_digit (octet div 16), hex_digit (octet mod 16)]"

definition escape :: "nat \<Rightarrow> jsstring" where
  "escape cp = concat (map percent (utf8 cp))"

definition high_surrogate :: "nat \<Rightarrow> bool" where
  "high_surrogate c \<longleftrightarrow> 55296 \<le> c \<and> c \<le> 56319"

definition low_surrogate :: "nat \<Rightarrow> bool" where
  "low_surrogate c \<longleftrightarrow> 56320 \<le> c \<and> c \<le> 57343"

fun encodeURIComponent :: "jsstring \<Rightarrow> error + jsstring" where
  "encodeURIComponent [] = Inr []"
| "encodeURIComponent [c] =
     (if uri_unreserved c then Inr [c]
      else if low_surrogate c \<or> high_surrogate c then Inl URIError
      else Inr (escape c))"
| "encodeURIComponent (c # d # rest) =
     (if uri_unreserved c then
        (case encodeURIComponent (d # rest) of Inl e \<Rightarrow> Inl e | Inr r \<Rightarrow> Inr (c # r))
      else if low_surrogate c then Inl URIError
      else if high_surrogate c then
        (if low_surrogate d then
           (case encodeURIComponent rest of
              Inl e \<Rightarrow> Inl e
            | Inr r \<Rightarrow> Inr (escape ((c - 55296) * 1024 + (d - 56320) + 65536) @ r))
         else Inl URIError)
      else
        (case encodeURIComponent (d # rest) of Inl e \<Rightarrow> Inl e | Inr r \<Rightarrow> Inr (escape c @ r)))"

section \<open>Chatbot: canned replies (advanced-chatbot.js)\<close>

text \<open>
  The canned texts contain emoji and run over many lines; each is named by a constructor.
  \<open>L_\<close> names the values of \<^verbatim>\<open>responses\<close> in \<^verbatim>\<open>getLocalResponse\<close>, \<open>E_\<close> the values of
  \<^verbatim>\<open>enhancedResponses\<close> and the later return statements of \<^verbatim>\<open>getEnhancedResponse\<close>.
\<close>

datatype reply =
    L_hello | L_hi | L_who_are_you | L_tell_me_about | L_services | L_collaborate
  | L_latest_releases | L_merchandise | L_events | L_contact | L_social_media
  | L_default
  | E_hello | E_hi | E_who_are_you | E_tell_me_about | E_services | E_collaborate
  | E_latest_releases | E_merchandise | E_events | E_contact | E_social_media
  | E_pricing | E_location | E_team | E_history
  | E_default
  | Sorry_trouble_connecting
  | Welcome

text \<open>\<^verbatim>\<open>Object.entries\<close> lists string keys in insertion order: the order of the literal.\<close>

definition responses :: "(jsstring \<times> reply) list" where
  "responses =
    [(js ''hello'', L_hello),
     (js ''hi'', L_hi),
     (js ''who are you'', L_who_are_you),
     (js ''tell me about valleytainment'', L_tell_me_about),
     (js ''what services do you offer'', L_services),
     (js ''how can i collaborate'', L_collaborate),
     (js ''latest music releases'', L_latest_releases),
     (js ''merchandise'', L_merchandise),
     (js ''events'', L_events),
     (js ''contact'', L_contact),
     (js ''social media'', L_social_media)]"

definition enhancedResponses :: "(jsstring \<times> reply) list" where
  "enhancedResponses =
    [(js ''hello'', E_hello),
     (js ''hi'', E_hi),
     (js ''who are you'', E_who_are_you),
     (js ''tell me about valleytainment'', E_tell_me_about),
     (js ''what services do you offer'', E_services),
     (js ''how can i collaborate'', E_collaborate),
     (js ''latest music releases'', E_latest_releases),
     (js ''merchandise'', E_merchandise),
     (js ''events'', E_events),
     (js ''contact'', E_contact),
     (js ''social media'', E_social_media)]"

text \<open>
  The loop \<^verbatim>\<open>for (const [key, value] of Object.entries(t)) if (lowerMessage.includes(key)) return value;\<close>
  \<open>None\<close> when the loop runs to its end.
\<close>

fun scan_entries :: "(jsstring \<times> 'r) list \<Rightarrow> jsstring \<Rightarrow> 'r option" where
  "scan_entries [] lowerMessage = None"
| "scan_entries ((key, val) # rest) lowerMessage =
     (if includes_js lowerMessage key then Some val else scan_entries rest lowerMessage)"

definition getLocalResponse :: "(jsstring \<Rightarrow> jsstring) \<Rightarrow> jsstring \<Rightarrow> reply" where
  "getLocalResponse toLowerCase message =
     (let lowerMessage = toLowerCase message in
      case scan_entries responses lowerMessage of
        Some v \<Rightarrow> v
      | None \<Rightarrow> L_default)"

definition getEnhancedResponse :: "(jsstring \<Rightarrow> jsstring) \<Rightarrow> jsstring \<Rightarrow> reply" where
  "getEnhancedResponse toLowerCase message =
     (let lowerMessage = toLowerCase message in
      case scan_entries enhancedResponses lowerMessage of
        Some v \<Rightarrow> v
      | None \<Rightarrow>
          if includes_js lowerMessage (js ''price'') \<or> includes_js lowerMessage (js ''cost'')
             \<or> includes_js lowerMessage (js ''how much'') then E_pricing
          else if includes_js lowerMessage (js ''location'') \<or> includes_js lowerMessage (js ''where are you'')
             \<or> includes_js lowerMessage (js ''where is'') then E_location
          else if includes_js lowerMessage (js ''team'') \<or> includes_js lowerMessage (js ''staff'')
             \<or> includes_js lowerMessage (js ''who works'') then E_team
          else if includes_js lowerMessage (js ''history'') \<or> includes_js lowerMessage (js ''started'')
             \<or> includes_js lowerMessage (js ''founded'') then E_history
          else E_default)"

text \<open>
  The keyword table of \<^verbatim>\<open>getEnhancedResponse\<close> read as one ordered list of
  (substring, response) pairs: the entries of \<^verbatim>\<open>enhancedResponses\<close>, then the substrings
  tested by the four \<^verbatim>\<open>if\<close> statements that follow the loop, in the order they are tested.
\<close>

definition enhancedKeywords :: "(jsstring \<times> reply) list" where
  "enhancedKeywords = enhancedResponses @
    [(js ''price'', E_pricing), (js ''cost'', E_pricing), (js ''how much'', E_pricing),
     (js ''location'', E_location), (js ''where are you'', E_location), (js ''where is'', E_location),
     (js ''team'', E_team), (js ''staff'', E_team), (js ''who works'', E_team),
     (js ''history'', E_history), (js ''started'', E_history), (js ''founded'', E_history)]"

text \<open>
  The reply the specification describes: the response of the first pair of the table, in
  table order, whose substring the lower-cased input contains; the default when there is none.
\<close>

definition first_match_reply :: "(jsstring \<times> 'r) list \<Rightarrow> 'r \<Rightarrow> jsstring \<Rightarrow> 'r \<Rightarrow> bool" where
  "first_match_reply table dflt lowerMessage r \<longleftrightarrow>
     (\<forall>i < length table.
        includes_js lowerMessage (fst (table ! i))
        \<and> (\<forall>j < i. \<not> includes_js lowerMessage (fst (table ! j)))
        \<longrightarrow> r = snd (table ! i))
     \<and> ((\<forall>j < length table. \<not> includes_js lowerMessage (fst (table ! j))) \<longrightarrow> r = dflt)"

section \<open>Local storage and JSON\<close>

text \<open>
  \<^verbatim>\<open>localStorage\<close> maps keys to strings; \<^verbatim>\<open>getItem\<close> of a missing key is \<^verbatim>\<open>null\<close>. Reads and
  writes are taken to succeed. \<^verbatim>\<open>JSON.stringify\<close> and \<^verbatim>\<open>JSON.parse\<close> belong to the platform and
  are parameters of the model, one pair for each kind of stored value; \<open>parse\<close> gives
  \<open>None\<close> where \<^verbatim>\<open>JSON.parse\<close> throws its \<open>SyntaxError\<close>. A stored text that parses to
  something other than a list of entries of the expected shape is outside the model.
\<close>

type_synonym storage = "string \<rightharpoonup> jsstring"

record 'a json =
  stringify :: "'a \<Rightarrow> jsstring"
  parse :: "jsstring \<Rightarrow> 'a option"

section \<open>Chatbot: state and message handling (advanced-chatbot.js)\<close>

datatype role = User | Assistant

datatype content = Typed jsstring | Canned reply

record chat_message =
  msg_role :: role
  msg_content :: content
  msg_timestamp :: nat

record chat_endpoint =
  cep_name :: string
  cep_url :: string
  cep_priority :: int

record chatbot_config =
  cb_emoji :: bool
  cb_maxHistoryItems :: nat
  cb_useLocalFallback :: bool
  cb_endpoints :: "chat_endpoint list"

definition CHATBOT_CONFIG :: chatbot_config where
  "CHATBOT_CONFIG =
     \<lparr> cb_emoji = True,
       cb_maxHistoryItems = 50,
       cb_useLocalFallback = True,
       cb_endpoints =
         [\<lparr> cep_name = ''huggingface'',
             cep_url = ''https://api-inference.huggingface.co/models/mistralai/Mixtral-8x7B-Instruct-v0.1'',
             cep_priority = 1 \<rparr>,
          \<lparr> cep_name = ''openai-compatible'',
             cep_url = ''https://api.together.xyz/v1/chat/completions'',
             cep_priority = 2 \<rparr>,
          \<lparr> cep_name = ''local'', cep_url = ''/api/chat'', cep_priority = 3 \<rparr>] \<rparr>"

text \<open>
  What \<^verbatim>\<open>init\<close> finds in the page: the element \<^verbatim>\<open>#chat-messages\<close>, the element
  \<^verbatim>\<open>#chatbot-popup\<close>, and a \<^verbatim>\<open>.chat-messages\<close> element inside the popup.
\<close>

record chat_page =
  chatMessages :: bool
  chatbotPopup :: bool
  popupChatMessages :: bool

text \<open>
  The state of a \<^verbatim>\<open>ValleyBot\<close>: the history array, the messages rendered in the two message
  containers, the storage, and what the class wrote with \<^verbatim>\<open>console.error\<close>.
\<close>

record valleybot =
  chatHistory :: "chat_message list"
  mainChat :: "(role \<times> content) list"
  popupChat :: "(role \<times> content) list"
  chatStorage :: storage
  errorsLogged :: "error list"

text \<open>
  \<^verbatim>\<open>processMessageText\<close> ends with
  \<^verbatim>\<open>for (const [shortcode, emoji] of Object.entries(emojiMap)) text = text.replace(new RegExp(shortcode, 'g'), emoji)\<close>
  when \<^verbatim>\<open>personality.emoji\<close> is set. The shortcodes go to the \<^verbatim>\<open>RegExp\<close> constructor as
  patterns, unescaped. None of them has a character class, an escape or a quantifier, so
  the constructor rejects exactly those with an unmatched parenthesis, throwing
  \<open>SyntaxError\<close>. The model keeps what the function throws; the HTML text it returns goes
  to \<^verbatim>\<open>innerHTML\<close> only and is not modelled.
\<close>

definition emojiMap_shortcodes :: "string list" where
  "emojiMap_shortcodes =
     ['':)'', '':('', '':D'', '';)'', '':P'', ''<3'', '':music:'', '':mic:'', '':fire:'',
      '':star:'', '':bulb:'']"

fun parens_matched :: "nat \<Rightarrow> string \<Rightarrow> bool" where
  "parens_matched depth [] = (depth = 0)"
| "parens_matched depth (c # cs) =
     (if c = CHR ''('' then parens_matched (Suc depth) cs
      else if c = CHR '')'' then (case depth of 0 \<Rightarrow> False | Suc d \<Rightarrow> parens_matched d cs)
      else parens_matched depth cs)"

fun replace_emoji :: "string list \<Rightarrow> error option" where
  "replace_emoji [] = None"
| "replace_emoji (shortcode # rest) =
     (if parens_matched 0 shortcode then replace_emoji rest else Some SyntaxError)"

definition processMessageText :: "chatbot_config \<Rightarrow> error option" where
  "processMessageText cfg = (if cb_emoji cfg then replace_emoji emojiMap_shortcodes else None)"

text \<open>
  \<^verbatim>\<open>addMessageToElement\<close> processes the text first and appends the new element last; the
  result is the exception, or the container with the message appended.
\<close>

definition addMessageToElement ::
  "chatbot_config \<Rightarrow> content \<Rightarrow> role \<Rightarrow> (role \<times> content) list \<Rightarrow> error + (role \<times> content) list" where
  "addMessageToElement cfg message sender element =
     (case processMessageText cfg of
        Some e \<Rightarrow> Inl e
      | None \<Rightarrow> Inr (element @ [(sender, message)]))"

text \<open>
  A function that throws after it has changed the state returns \<open>Inl (e, s)\<close>: the exception
  and the state it leaves behind.
\<close>

definition addMessageToChat ::
  "chatbot_config \<Rightarrow> chat_page \<Rightarrow> content \<Rightarrow> role \<Rightarrow> valleybot \<Rightarrow> error \<times> valleybot + valleybot" where
  "addMessageToChat cfg page message sender s =
     (if \<not> chatMessages page then Inr s
      else case addMessageToElement cfg message sender (mainChat s) of
             Inl e \<Rightarrow> Inl (e, s)
           | Inr el \<Rightarrow> Inr (s\<lparr>mainChat := el\<rparr>))"

text \<open>
  The popup part of \<^verbatim>\<open>addUserMessage\<close> and \<^verbatim>\<open>addBotMessage\<close>:
  \<^verbatim>\<open>this.chatbotPopup.querySelector('.chat-messages')\<close> throws \<open>TypeError\<close> when the popup
  element is missing.
\<close>

definition addToPopup ::
  "chatbot_config \<Rightarrow> chat_page \<Rightarrow> content \<Rightarrow> role \<Rightarrow> valleybot \<Rightarrow> error \<times> valleybot + valleybot" where
  "addToPopup cfg page message sender s =
     (if \<not> chatbotPopup page then Inl (TypeError, s)
      else if \<not> popupChatMessages page then Inr s
      else case addMessageToElement cfg message sender (popupChat s) of
             Inl e \<Rightarrow> Inl (e, s)
           | Inr el \<Rightarrow> Inr (s\<lparr>popupChat := el\<rparr>))"

text \<open>\<^verbatim>\<open>xs.slice(-n)\<close> for \<open>n \<ge> 0\<close>: the last \<open>n\<close> elements; \<^verbatim>\<open>slice(-0)\<close> is \<^verbatim>\<open>slice(0)\<close>, the whole array.\<close>

definition slice_last :: "nat \<Rightarrow> 'a list \<Rightarrow> 'a list" where
  "slice_last n xs = (if n = 0 then xs else drop (length xs - n) xs)"

definition saveChatHistory ::
  "chatbot_config \<Rightarrow> chat_message list json \<Rightarrow> valleybot \<Rightarrow> valleybot" where
  "saveChatHistory cfg codec s =
     (let h = (if length (chatHistory s) > cb_maxHistoryItems cfg
               then slice_last (cb_maxHistoryItems cfg) (chatHistory s)
               else chatHistory s)
      in s\<lparr>chatHistory := h,
            chatStorage := (chatStorage s)(''valleybot_chat_history'' \<mapsto> stringify codec h)\<rparr>)"

definition pushMessage :: "role \<Rightarrow> content \<Rightarrow> nat \<Rightarrow> valleybot \<Rightarrow> valleybot" where
  "pushMessage r message now s =
     s\<lparr>chatHistory := chatHistory s
          @ [\<lparr>msg_role = r, msg_content = message, msg_timestamp = now\<rparr>]\<rparr>"

definition addUserMessage ::
  "chatbot_config \<Rightarrow> chat_page \<Rightarrow> chat_message list json \<Rightarrow> nat \<Rightarrow> content \<Rightarrow> valleybot
   \<Rightarrow> error \<times> valleybot + valleybot" where
  "addUserMessage cfg page codec now message s =
     (case addMessageToChat cfg page message User s of
        Inl err \<Rightarrow> Inl err
      | Inr s1 \<Rightarrow>
          (case addToPopup cfg page message User s1 of
             Inl err \<Rightarrow> Inl err
           | Inr s2 \<Rightarrow> Inr (saveChatHistory cfg codec (pushMessage User message now s2))))"

text \<open>
  \<^verbatim>\<open>addBotMessage\<close> ends with \<^verbatim>\<open>updateSuggestionChips\<close>, which redraws the suggestion chips
  from the last three messages and changes nothing that is modelled here.
\<close>

definition addBotMessage ::
  "chatbot_config \<Rightarrow> chat_page \<Rightarrow> chat_message list json \<Rightarrow> nat \<Rightarrow> content \<Rightarrow> valleybot
   \<Rightarrow> error \<times> valleybot + valleybot" where
  "addBotMessage cfg page codec now message s =
     (case addMessageToChat cfg page message Assistant s of
        Inl err \<Rightarrow> Inl err
      | Inr s1 \<Rightarrow>
          (case addToPopup cfg page message Assistant s1 of
             Inl err \<Rightarrow> Inl err
           | Inr s2 \<Rightarrow> Inr (saveChatHistory cfg codec (pushMessage Assistant message now s2))))"

text \<open>
  \<^verbatim>\<open>loadChatHistory\<close>: \<^verbatim>\<open>if (savedHistory)\<close> skips both \<^verbatim>\<open>null\<close> and the empty string; there is
  no \<^verbatim>\<open>else\<close> branch.
\<close>

definition loadChatHistory :: "chat_message list json \<Rightarrow> valleybot \<Rightarrow> valleybot" where
  "loadChatHistory codec s =
     (case chatStorage s ''valleybot_chat_history'' of
        None \<Rightarrow> s
      | Some savedHistory \<Rightarrow>
          if savedHistory = [] then s
          else (case parse codec savedHistory of
                  Some h \<Rightarrow> s\<lparr>chatHistory := h\<rparr>
                | None \<Rightarrow> s\<lparr>chatHistory := [], errorsLogged := errorsLogged s @ [SyntaxError]\<rparr>))"

text \<open>
  The constructor sets \<^verbatim>\<open>this.chatHistory = []\<close> and calls \<^verbatim>\<open>loadChatHistory\<close>, the only call
  of that method. (It then loads the analytics counters, which are not modelled.)
\<close>

definition ValleyBot_constructor :: "chat_message list json \<Rightarrow> storage \<Rightarrow> valleybot" where
  "ValleyBot_constructor codec st =
     loadChatHistory codec
       \<lparr>chatHistory = [], mainChat = [], popupChat = [], chatStorage = st, errorsLogged = []\<rparr>"

text \<open>
  \<^verbatim>\<open>fetchAIResponse\<close> sorts a copy of the endpoints by priority (a stable sort) and loops over
  them. The body of the loop waits 1500 ms and returns \<^verbatim>\<open>getEnhancedResponse(message)\<close>;
  nothing in it throws, so its \<^verbatim>\<open>catch\<close> never runs. With no endpoint the loop is skipped and
  the function throws.
\<close>

fun try_chat_endpoints ::
  "(jsstring \<Rightarrow> jsstring) \<Rightarrow> jsstring \<Rightarrow> chat_endpoint list \<Rightarrow> error + reply" where
  "try_chat_endpoints lower message [] = Inl All_API_endpoints_failed"
| "try_chat_endpoints lower message (endpoint # rest) = Inr (getEnhancedResponse lower message)"

definition fetchAIResponse ::
  "(jsstring \<Rightarrow> jsstring) \<Rightarrow> chatbot_config \<Rightarrow> jsstring \<Rightarrow> error + reply" where
  "fetchAIResponse lower cfg message =
     try_chat_endpoints lower message (sort_key cep_priority (cb_endpoints cfg))"

text \<open>
  \<^verbatim>\<open>getBotResponse\<close>. \<^verbatim>\<open>showTypingIndicator\<close> runs before the \<^verbatim>\<open>try\<close> and reads
  \<^verbatim>\<open>this.chatbotPopup.querySelector\<close>: with no popup element the call is rejected with
  \<open>TypeError\<close> at once. Otherwise the function waits for \<^verbatim>\<open>fetchAIResponse\<close> and goes on in
  the state the chatbot has by then, \<open>s\<close>. The \<^verbatim>\<open>catch\<close> block catches what
  \<^verbatim>\<open>fetchAIResponse\<close> throws and also what \<^verbatim>\<open>addBotMessage(response)\<close> throws; it logs the
  error and calls \<^verbatim>\<open>getLocalResponse\<close> when \<^verbatim>\<open>useLocalFallback\<close> is set. (The typing indicator
  itself is not modelled.)
\<close>

definition getBotResponse_catch ::
  "(jsstring \<Rightarrow> jsstring) \<Rightarrow> chatbot_config \<Rightarrow> chat_page \<Rightarrow> chat_message list json \<Rightarrow> nat
   \<Rightarrow> jsstring \<Rightarrow> error \<Rightarrow> valleybot \<Rightarrow> error \<times> valleybot + valleybot" where
  "getBotResponse_catch lower cfg page codec now message err s =
     (let s1 = s\<lparr>errorsLogged := errorsLogged s @ [err]\<rparr> in
      if cb_useLocalFallback cfg
      then addBotMessage cfg page codec now (Canned (getLocalResponse lower message)) s1
      else addBotMessage cfg page codec now (Canned Sorry_trouble_connecting) s1)"

definition getBotResponse ::
  "(jsstring \<Rightarrow> jsstring) \<Rightarrow> chatbot_config \<Rightarrow> chat_page \<Rightarrow> chat_message list json \<Rightarrow> nat
   \<Rightarrow> jsstring \<Rightarrow> valleybot \<Rightarrow> error \<times> valleybot + valleybot" where
  "getBotResponse lower cfg page codec now message s =
     (if \<not> chatbotPopup page then Inl (TypeError, s)
      else case fetchAIResponse lower cfg message of
             Inl err \<Rightarrow> getBotResponse_catch lower cfg page codec now message err s
           | Inr response \<Rightarrow>
               (case addBotMessage cfg page codec now (Canned response) s of
                  Inr s' \<Rightarrow> Inr s'
                | Inl (err, s1) \<Rightarrow> getBotResponse_catch lower cfg page codec now message err s1))"

text \<open>
  The two callers of \<^verbatim>\<open>getBotResponse\<close>: \<^verbatim>\<open>sendMessage\<close> and the click handler of the popup's
  send button. Both read the text of their input field (\<open>None\<close> when the page has no such
  element: reading \<^verbatim>\<open>.value\<close> of \<^verbatim>\<open>null\<close> throws \<open>TypeError\<close>), trim it, return on an empty
  message, call \<^verbatim>\<open>addUserMessage\<close>, clear the input and then call
  \<^verbatim>\<open>getBotResponse(message)\<close>; an exception of \<^verbatim>\<open>addUserMessage\<close> ends the handler before that
  call. The result is the exception with the state it leaves, or the new state with the
  message \<^verbatim>\<open>getBotResponse\<close> was called with, if it was called. (\<^verbatim>\<open>sendMessage\<close> then updates
  the analytics counters, which are not modelled.)
\<close>

definition sendMessage ::
  "chatbot_config \<Rightarrow> chat_page \<Rightarrow> chat_message list json \<Rightarrow> nat \<Rightarrow> jsstring option
   \<Rightarrow> valleybot \<Rightarrow> error \<times> valleybot + valleybot \<times> jsstring option" where
  "sendMessage cfg page codec now chatInput s =
     (case chatInput of
        None \<Rightarrow> Inl (TypeError, s)
      | Some inputValue \<Rightarrow>
          let message = trim inputValue in
          if message = [] then Inr (s, None)
          else case addUserMessage cfg page codec now (Typed message) s of
                 Inl err \<Rightarrow> Inl err
               | Inr s1 \<Rightarrow> Inr (s1, Some message))"

definition popupSendButton_click ::
  "chatbot_config \<Rightarrow> chat_page \<Rightarrow> chat_message list json \<Rightarrow> nat \<Rightarrow> jsstring option
   \<Rightarrow> valleybot \<Rightarrow> error \<times> valleybot + valleybot \<times> jsstring option" where
  "popupSendButton_click cfg page codec now popupChatInput s =
     (case popupChatInput of
        None \<Rightarrow> Inl (TypeError, s)
      | Some inputValue \<Rightarrow>
          let message = trim inputValue in
          if message = [] then Inr (s, None)
          else case addUserMessage cfg page codec now (Typed message) s of
                 Inl err \<Rightarrow> Inl err
               | Inr s1 \<Rightarrow> Inr (s1, Some message))"

section \<open>Image generator class: configuration and state\<close>

record image_params =
  p_width :: nat
  p_height :: nat
  p_nologo :: bool

record image_endpoint =
  ep_name :: string
  ep_url :: string
  ep_priority :: int
  ep_params :: "image_params option"

record style =
  style_id :: string
  promptModifier :: string

record image_config =
  defaultWidth :: nat
  defaultHeight :: nat
  maxPromptLength :: nat
  defaultStyle :: string
  defaultNegativePrompt :: string
  promptPrefix :: string
  maxHistoryItems :: nat
  showLoadingAnimation :: bool
  errorText :: string
  useLocalFallback :: bool
  endpoints :: "image_endpoint list"
  styles :: "style list"
  analytics_enabled :: bool
  trackPrompts :: bool
  trackStyles :: bool
  analytics_storageKey :: string

definition IMAGE_GENERATOR_CONFIG :: image_config where
  "IMAGE_GENERATOR_CONFIG =
     \<lparr> defaultWidth = 512,
       defaultHeight = 512,
       maxPromptLength = 1000,
       defaultStyle = ''neon-urban'',
       defaultNegativePrompt = ''blurry, low quality, distorted, deformed, ugly, bad anatomy'',
       promptPrefix = ''Valleytainment style, high quality, detailed'',
       maxHistoryItems = 10,
       showLoadingAnimation = True,
       errorText = ''Unable to generate image. Please try again.'',
       useLocalFallback = True,
       endpoints =
         [\<lparr> ep_name = ''pollinations'',
             ep_url = ''https://image.pollinations.ai/prompt/'',
             ep_priority = 1,
             ep_params = Some \<lparr> p_width = 512, p_height = 512, p_nologo = True \<rparr> \<rparr>,
          \<lparr> ep_name = ''stability'',
             ep_url = ''https://api.stability.ai/v1/generation/stable-diffusion-xl-1024-v1-0/text-to-image'',
             ep_priority = 2,
             ep_params = None \<rparr>,
          \<lparr> ep_name = ''huggingface'',
             ep_url = ''https://api-inference.huggingface.co/models/stabilityai/stable-diffusion-xl-base-1.0'',
             ep_priority = 3,
             ep_params = None \<rparr>],
       styles =
         [\<lparr> style_id = ''neon-urban'',
             promptModifier = ''neon lights, urban aesthetic, vibrant colors, city nightlife, cyberpunk influence'' \<rparr>,
          \<lparr> style_id = ''retro-wave'',
             promptModifier = ''retrowave, synthwave, 80s aesthetic, purple and blue gradient, grid patterns, sunset'' \<rparr>,
          \<lparr> style_id = ''graffiti'',
             promptModifier = ''graffiti art, street art, spray paint, urban walls, bold colors, tags and murals'' \<rparr>,
          \<lparr> style_id = ''glitch'',
             promptModifier = ''digital glitch, distortion, vaporwave, data moshing, RGB split, corrupted data aesthetic'' \<rparr>,
          \<lparr> style_id = ''minimalist'',
             promptModifier = ''minimalist design, clean lines, limited color palette, negative space, bold typography'' \<rparr>,
          \<lparr> style_id = ''abstract'',
             promptModifier = ''abstract art, geometric shapes, non-representational, bold colors, dynamic composition'' \<rparr>,
          \<lparr> style_id = ''photorealistic'',
             promptModifier = ''photorealistic, highly detailed, professional photography, 8k, sharp focus, realistic lighting'' \<rparr>,
          \<lparr> style_id = ''anime'',
             promptModifier = ''anime style, manga illustration, cel shaded, vibrant colors, expressive characters'' \<rparr>,
          \<lparr> style_id = ''3d-render'',
             promptModifier = ''3D render, octane render, blender, cinema 4D, volumetric lighting, ray tracing, subsurface scattering'' \<rparr>,
          \<lparr> style_id = ''pop-art'',
             promptModifier = ''pop art, Roy Lichtenstein, Andy Warhol, bold colors, comic book style, halftone dots, ben-day dots'' \<rparr>],
       analytics_enabled = True,
       trackPrompts = True,
       trackStyles = True,
       analytics_storageKey = ''valleytainment_image_generator_analytics'' \<rparr>"

record dimensions =
  width :: jsnumber
  height :: jsnumber

record history_item =
  hi_prompt :: jsstring
  hi_imageUrl :: jsstring
  hi_style :: jsstring
  hi_timestamp :: nat

text \<open>A counter in one of the analytics objects: a count, or \<^verbatim>\<open>NaN\<close>.\<close>

datatype tally = Count nat | NaN

record image_analytics =
  totalGenerations :: nat
  popularPrompts :: "jsstring \<rightharpoonup> tally"
  popularStyles :: "jsstring \<rightharpoonup> tally"
  lastGenerationTime :: "nat option"

text \<open>
  The elements \<^verbatim>\<open>init\<close> finds (each may be missing), and what the inputs hold when
  \<^verbatim>\<open>generateImage\<close> is called: the prompt field's text, the trimmed text of the negative
  prompt field, and the numbers \<^verbatim>\<open>parseInt\<close> reads from the width and height fields
  (\<open>None\<close> when the element is missing or empty, or the result is \<^verbatim>\<open>NaN\<close>).
\<close>

record image_page =
  promptInput :: bool
  imageOutput :: bool
  loadingIndicator :: bool
  errorMessage :: bool
  saveImageButton :: bool

record image_inputs =
  promptValue :: jsstring
  negativePromptValue :: "jsstring option"
  widthValue :: "jsnumber option"
  heightValue :: "jsnumber option"

text \<open>
  The state of a \<^verbatim>\<open>ValleyImageGenerator\<close>, with the part of the page it writes: whether the
  loading indicator is displayed, the text of the displayed error message, the source and
  prompt of the output image, whether the save button is displayed.
\<close>

record image_generator =
  isGenerating :: bool
  selectedStyle :: jsstring
  generationHistory :: "history_item list"
  analytics :: image_analytics
  imageStorage :: storage
  loadingDisplayed :: bool
  errorDisplayed :: "jsstring option"
  outputImage :: "(jsstring \<times> jsstring) option"
  saveDisplayed :: bool
  imageErrorsLogged :: "error list"

text \<open>
  The canvas behind \<^verbatim>\<open>generateLocalImage\<close>: whether \<^verbatim>\<open>getContext('2d')\<close> gives a context;
  whether \<^verbatim>\<open>ctx.measureText(testLine).width > dimensions.width - 40\<close> holds for a line and a
  width; and the PNG data URL of a canvas that was given the width and height and on which
  the gradient, the given lines and the watermark were drawn.
\<close>

record canvas =
  context2d :: bool
  overflows :: "jsstring \<Rightarrow> jsnumber \<Rightarrow> bool"
  toDataURL :: "jsnumber \<Rightarrow> jsnumber \<Rightarrow> jsstring list \<Rightarrow> jsstring"

section \<open>Image generator class: operations\<close>

text \<open>\<^verbatim>\<open>enhancePrompt\<close>: the style's modifier is appended, then the prefix is put in front.\<close>

definition enhancePrompt :: "image_config \<Rightarrow> jsstring \<Rightarrow> jsstring \<Rightarrow> jsstring" where
  "enhancePrompt cfg selected prompt =
     (let withStyle =
            (case find (\<lambda>st. js (style_id st) = selected) (styles cfg) of
               Some st \<Rightarrow> if promptModifier st \<noteq> [] then prompt @ js '', '' @ js (promptModifier st)
                          else prompt
             | None \<Rightarrow> prompt)
      in if promptPrefix cfg \<noteq> [] then js (promptPrefix cfg) @ js '', '' @ withStyle
         else withStyle)"

definition getNegativePrompt :: "image_config \<Rightarrow> image_inputs \<Rightarrow> jsstring" where
  "getNegativePrompt cfg inp =
     (case negativePromptValue inp of
        Some v \<Rightarrow> if trim v \<noteq> [] then trim v else js (defaultNegativePrompt cfg)
      | None \<Rightarrow> js (defaultNegativePrompt cfg))"

definition getImageDimensions :: "image_config \<Rightarrow> image_inputs \<Rightarrow> dimensions" where
  "getImageDimensions cfg inp =
     \<lparr> width = (case widthValue inp of
                  Some parsedWidth \<Rightarrow>
                    if positive parsedWidth then parsedWidth else Finite (int (defaultWidth cfg))
                | None \<Rightarrow> Finite (int (defaultWidth cfg))),
       height = (case heightValue inp of
                   Some parsedHeight \<Rightarrow>
                     if positive parsedHeight then parsedHeight else Finite (int (defaultHeight cfg))
                 | None \<Rightarrow> Finite (int (defaultHeight cfg))) \<rparr>"

text \<open>\<^verbatim>\<open>prompt.split(' ')\<close>: the pieces between the spaces; never an empty list.\<close>

fun split_spaces :: "jsstring \<Rightarrow> jsstring list" where
  "split_spaces [] = [[]]"
| "split_spaces (c # cs) =
     (if c = 32 then [] # split_spaces cs
      else (case split_spaces cs of
              [] \<Rightarrow> [[c]]
            | w # ws \<Rightarrow> (c # w) # ws))"

text \<open>
  The wrapping loop of \<^verbatim>\<open>generateLocalImage\<close>: \<open>tooWide\<close> is the test
  \<^verbatim>\<open>testWidth > maxWidth\<close>, \<open>i\<close> the index of the first word of the list, \<open>line\<close> the line
  being filled, \<open>lines\<close> the finished ones. It ends with \<^verbatim>\<open>lines.push(line)\<close>.
\<close>

fun wrap_words ::
  "(jsstring \<Rightarrow> bool) \<Rightarrow> nat \<Rightarrow> jsstring list \<Rightarrow> jsstring \<Rightarrow> jsstring list \<Rightarrow> jsstring list" where
  "wrap_words tooWide i [] line lines = lines @ [line]"
| "wrap_words tooWide i (w # ws) line lines =
     (let testLine = line @ w @ [32] in
      if tooWide testLine \<and> i > 0
      then wrap_words tooWide (Suc i) ws (w @ [32]) (lines @ [line])
      else wrap_words tooWide (Suc i) ws testLine lines)"

text \<open>
  \<^verbatim>\<open>generateLocalImage\<close> draws inside a promise: an exception there (no 2d context) rejects
  the promise. At most five lines are drawn, the fifth being \<^verbatim>\<open>'...'\<close> when there were more.
\<close>

definition generateLocalImage :: "canvas \<Rightarrow> jsstring \<Rightarrow> dimensions \<Rightarrow> error + jsstring" where
  "generateLocalImage cv prompt dims =
     (if \<not> context2d cv then Inl TypeError
      else
        let lines = wrap_words (\<lambda>testLine. overflows cv testLine (width dims)) 0
                      (split_spaces prompt) [] [];
            lines = (if length lines > 5 then take 4 lines @ [js ''...''] else lines)
        in Inr (toDataURL cv (width dims) (height dims) lines))"

text \<open>
  The loop of \<^verbatim>\<open>fetchGeneratedImage\<close> over the sorted endpoints. An exception in the
  \<^verbatim>\<open>pollinations\<close> branch (only \<^verbatim>\<open>encodeURIComponent\<close> can throw there) is caught and the
  loop goes on. The \<^verbatim>\<open>local\<close> branch returns the promise of \<^verbatim>\<open>generateLocalImage\<close> without
  awaiting it, so its rejection is the rejection of \<^verbatim>\<open>fetchGeneratedImage\<close>. An endpoint
  with any other name does nothing. After the loop the function throws.
\<close>

definition pollinations_url ::
  "(int \<Rightarrow> jsstring) \<Rightarrow> image_endpoint \<Rightarrow> jsstring \<Rightarrow> dimensions \<Rightarrow> nat \<Rightarrow> jsstring" where
  "pollinations_url large endpoint encodedPrompt dims now =
     (let url = js (ep_url endpoint) @ encodedPrompt;
          url = (if truthy (width dims) \<and> truthy (height dims)
                 then url @ js ''?width='' @ Number_toString large (width dims)
                          @ js ''&height='' @ Number_toString large (height dims)
                 else url);
          url = (case ep_params endpoint of
                   Some ps \<Rightarrow>
                     if p_nologo ps
                     then url @ (if includes_js url (js ''?'') then js ''&nologo=true''
                                 else js ''?nologo=true'')
                     else url
                 | None \<Rightarrow> url)
      in url @ (if includes_js url (js ''?'')
                then js ''&t='' @ Number_toString large (Finite (int now))
                else js ''?t='' @ Number_toString large (Finite (int now))))"

fun try_image_endpoints ::
  "(int \<Rightarrow> jsstring) \<Rightarrow> image_config \<Rightarrow> canvas \<Rightarrow> jsstring \<Rightarrow> dimensions \<Rightarrow> nat
   \<Rightarrow> image_endpoint list \<Rightarrow> error + jsstring" where
  "try_image_endpoints large cfg cv prompt dims now [] = Inl All_image_generation_endpoints_failed"
| "try_image_endpoints large cfg cv prompt dims now (endpoint # rest) =
     (if ep_name endpoint = ''pollinations'' then
        (case encodeURIComponent prompt of
           Inl e \<Rightarrow> try_image_endpoints large cfg cv prompt dims now rest
         | Inr encodedPrompt \<Rightarrow> Inr (pollinations_url large endpoint encodedPrompt dims now))
      else if ep_name endpoint = ''local'' \<and> useLocalFallback cfg then
        generateLocalImage cv prompt dims
      else try_image_endpoints large cfg cv prompt dims now rest)"

definition fetchGeneratedImage ::
  "(int \<Rightarrow> jsstring) \<Rightarrow> image_config \<Rightarrow> canvas \<Rightarrow> jsstring \<Rightarrow> jsstring \<Rightarrow> dimensions \<Rightarrow> nat
   \<Rightarrow> error + jsstring" where
  "fetchGeneratedImage large cfg cv prompt negativePrompt dims now =
     try_image_endpoints large cfg cv prompt dims now (sort_key ep_priority (endpoints cfg))"

text \<open>
  The display helpers do nothing when their element is missing. (\<^verbatim>\<open>showError\<close> also starts
  a timer that hides the message after five seconds; timers are not modelled.)
\<close>

definition showLoading :: "image_config \<Rightarrow> image_page \<Rightarrow> image_generator \<Rightarrow> image_generator" where
  "showLoading cfg page s =
     (if \<not> loadingIndicator page \<or> \<not> showLoadingAnimation cfg then s
      else s\<lparr>loadingDisplayed := True,
             errorDisplayed := (if errorMessage page then None else errorDisplayed s)\<rparr>)"

definition hideLoading :: "image_page \<Rightarrow> image_generator \<Rightarrow> image_generator" where
  "hideLoading page s = (if \<not> loadingIndicator page then s else s\<lparr>loadingDisplayed := False\<rparr>)"

definition showError ::
  "image_config \<Rightarrow> image_page \<Rightarrow> jsstring \<Rightarrow> image_generator \<Rightarrow> image_generator" where
  "showError cfg page message s =
     (if \<not> errorMessage page then s
      else s\<lparr>errorDisplayed := Some (if message \<noteq> [] then message else js (errorText cfg))\<rparr>)"

definition saveGenerationHistory :: "history_item list json \<Rightarrow> image_generator \<Rightarrow> image_generator" where
  "saveGenerationHistory codec s =
     s\<lparr>imageStorage :=
         (imageStorage s)(''valleytainment_image_history'' \<mapsto> stringify codec (generationHistory s))\<rparr>"

text \<open>
  \<^verbatim>\<open>addToHistory\<close>: \<^verbatim>\<open>unshift\<close> puts the new item at index 0, \<^verbatim>\<open>slice(0, max)\<close> keeps the first
  \<open>max\<close> items. (\<^verbatim>\<open>updateHistoryDisplay\<close>, called last, only redraws the list.)
\<close>

definition addToHistory ::
  "image_config \<Rightarrow> history_item list json \<Rightarrow> nat \<Rightarrow> jsstring \<Rightarrow> jsstring \<Rightarrow> image_generator
   \<Rightarrow> image_generator" where
  "addToHistory cfg codec now prompt imageUrl s =
     (let historyItem = \<lparr> hi_prompt = prompt, hi_imageUrl = imageUrl,
                           hi_style = selectedStyle s, hi_timestamp = now \<rparr>;
          h = historyItem # generationHistory s;
          h = (if length h > maxHistoryItems cfg then take (maxHistoryItems cfg) h else h)
      in saveGenerationHistory codec (s\<lparr>generationHistory := h\<rparr>))"

definition loadGenerationHistory :: "history_item list json \<Rightarrow> image_generator \<Rightarrow> image_generator" where
  "loadGenerationHistory codec s =
     (case imageStorage s ''valleytainment_image_history'' of
        None \<Rightarrow> s\<lparr>generationHistory := []\<rparr>
      | Some savedHistory \<Rightarrow>
          if savedHistory = [] then s\<lparr>generationHistory := []\<rparr>
          else (case parse codec savedHistory of
                  Some h \<Rightarrow> s\<lparr>generationHistory := h\<rparr>
                | None \<Rightarrow> s\<lparr>generationHistory := [],
                             imageErrorsLogged := imageErrorsLogged s @ [SyntaxError]\<rparr>))"

definition saveAnalytics :: "image_config \<Rightarrow> image_analytics json \<Rightarrow> image_generator \<Rightarrow> image_generator" where
  "saveAnalytics cfg acodec s =
     (if \<not> analytics_enabled cfg then s
      else s\<lparr>imageStorage :=
               (imageStorage s)(analytics_storageKey cfg \<mapsto> stringify acodec (analytics s))\<rparr>)"

definition loadAnalytics :: "image_config \<Rightarrow> image_analytics json \<Rightarrow> image_generator \<Rightarrow> image_generator" where
  "loadAnalytics cfg acodec s =
     (if \<not> analytics_enabled cfg then s
      else case imageStorage s (analytics_storageKey cfg) of
             None \<Rightarrow> s
           | Some savedAnalytics \<Rightarrow>
               if savedAnalytics = [] then s
               else (case parse acodec savedAnalytics of
                       Some a \<Rightarrow> s\<lparr>analytics := a\<rparr>
                     | None \<Rightarrow> s\<lparr>imageErrorsLogged := imageErrorsLogged s @ [SyntaxError]\<rparr>))"

text \<open>
  \<^verbatim>\<open>if (counts[k]) counts[k]++; else counts[k] = 1;\<close> on a plain object. An own count of zero
  and an own \<^verbatim>\<open>NaN\<close> are falsy. With no own property the read finds what \<^verbatim>\<open>Object.prototype\<close>
  has under that name: it is truthy, \<^verbatim>\<open>++\<close> turns it into \<^verbatim>\<open>NaN\<close>, and the assignment
  stores \<^verbatim>\<open>NaN\<close> as an own property, except under \<^verbatim>\<open>__proto__\<close>, whose setter ignores a
  number.
\<close>

definition bump_count :: "(jsstring \<rightharpoonup> tally) \<Rightarrow> jsstring \<Rightarrow> (jsstring \<rightharpoonup> tally)" where
  "bump_count m k =
     (case m k of
        Some (Count c) \<Rightarrow> m(k \<mapsto> Count (if c = 0 then 1 else c + 1))
      | Some NaN \<Rightarrow> m(k \<mapsto> Count 1)
      | None \<Rightarrow>
          if inherited k then (if k = js ''__proto__'' then m else m(k \<mapsto> NaN))
          else m(k \<mapsto> Count 1))"

definition trackGeneration ::
  "image_config \<Rightarrow> (jsstring \<Rightarrow> jsstring) \<Rightarrow> image_analytics json \<Rightarrow> nat \<Rightarrow> jsstring
   \<Rightarrow> image_generator \<Rightarrow> image_generator" where
  "trackGeneration cfg lower acodec now prompt s =
     (let a = analytics s;
          a = a\<lparr>totalGenerations := totalGenerations a + 1, lastGenerationTime := Some now\<rparr>;
          a = (if trackPrompts cfg
               then a\<lparr>popularPrompts := bump_count (popularPrompts a) (trim (lower prompt))\<rparr>
               else a);
          a = (if trackStyles cfg
               then a\<lparr>popularStyles := bump_count (popularStyles a) (selectedStyle s)\<rparr>
               else a)
      in saveAnalytics cfg acodec (s\<lparr>analytics := a\<rparr>))"

definition ValleyImageGenerator_constructor ::
  "image_config \<Rightarrow> history_item list json \<Rightarrow> image_analytics json \<Rightarrow> storage \<Rightarrow> image_generator" where
  "ValleyImageGenerator_constructor cfg codec acodec st =
     (let s = \<lparr> isGenerating = False,
                selectedStyle = js (defaultStyle cfg),
                generationHistory = [],
                analytics = \<lparr> totalGenerations = 0, popularPrompts = Map.empty,
                              popularStyles = Map.empty, lastGenerationTime = None \<rparr>,
                imageStorage = st,
                loadingDisplayed = False,
                errorDisplayed = None,
                outputImage = None,
                saveDisplayed = False,
                imageErrorsLogged = [] \<rparr>;
          s = loadGenerationHistory codec s
      in if analytics_enabled cfg then loadAnalytics cfg acodec s else s)"

text \<open>
  \<^verbatim>\<open>generateImage\<close> is an \<^verbatim>\<open>async\<close> function. \<open>generateImage_start\<close> is what runs when it is
  called, up to the \<^verbatim>\<open>await\<close>: it returns the new state and, when a generation was started,
  the prompt with the outcome the promise of \<^verbatim>\<open>fetchGeneratedImage\<close> will settle to.
  \<open>generateImage_finish\<close> is what runs once that promise has settled, in the state the
  generator has by then; between the two \<^verbatim>\<open>isGenerating\<close> is \<^verbatim>\<open>true\<close>.
\<close>

definition generateImage_start ::
  "(int \<Rightarrow> jsstring) \<Rightarrow> image_config \<Rightarrow> image_page \<Rightarrow> canvas \<Rightarrow> image_inputs \<Rightarrow> nat
   \<Rightarrow> image_generator \<Rightarrow> image_generator \<times> (jsstring \<times> (error + jsstring)) option" where
  "generateImage_start large cfg page cv inp now s =
     (let prompt = (if promptInput page then trim (promptValue inp) else []) in
      if prompt = [] then
        (showError cfg page (js ''Please enter a prompt to generate an image.'') s, None)
      else if length prompt > maxPromptLength cfg then
        (showError cfg page
           (js ''Prompt is too long. Maximum length is ''
              @ Number_toString large (Finite (int (maxPromptLength cfg)))
              @ js '' characters.'') s, None)
      else if isGenerating s then (s, None)
      else
        let s1 = (showLoading cfg page s)\<lparr>isGenerating := True\<rparr>;
            enhancedPrompt = enhancePrompt cfg (selectedStyle s1) prompt;
            negativePrompt = getNegativePrompt cfg inp;
            dims = getImageDimensions cfg inp
        in (s1, Some (prompt,
                      fetchGeneratedImage large cfg cv enhancedPrompt negativePrompt dims now)))"

definition generateImage_finish ::
  "image_config \<Rightarrow> image_page \<Rightarrow> (jsstring \<Rightarrow> jsstring) \<Rightarrow> history_item list json
   \<Rightarrow> image_analytics json \<Rightarrow> nat \<Rightarrow> jsstring \<times> (error + jsstring) \<Rightarrow> image_generator
   \<Rightarrow> image_generator" where
  "generateImage_finish cfg page lower codec acodec now pending s =
     (case pending of
        (prompt, Inr imageUrl) \<Rightarrow>
          let s1 = hideLoading page s;
              s2 = (if imageOutput page then s1\<lparr>outputImage := Some (imageUrl, prompt)\<rparr> else s1);
              s3 = (if saveImageButton page then s2\<lparr>saveDisplayed := True\<rparr> else s2);
              s4 = addToHistory cfg codec now prompt imageUrl s3;
              s5 = (if analytics_enabled cfg then trackGeneration cfg lower acodec now prompt s4
                    else s4)
          in s5\<lparr>isGenerating := False\<rparr>
      | (prompt, Inl err) \<Rightarrow>
          let s1 = s\<lparr>imageErrorsLogged := imageErrorsLogged s @ [err]\<rparr>;
              s2 = hideLoading page s1;
              s3 = showError cfg page (js ''Failed to generate image. Please try again.'') s2
          in s3\<lparr>isGenerating := False\<rparr>)"

section \<open>Enhanced image generator (the script with imageGeneratorConfig)\<close>

text \<open>
  This image generator keeps its state in module variables: \<^verbatim>\<open>imageHistory\<close>,
  \<^verbatim>\<open>isGenerating\<close>. \<^verbatim>\<open>showError\<close> there adds a toast to the page.
\<close>

record image_history_entry =
  ih_imageUrl :: jsstring
  ih_prompt :: jsstring
  ih_style :: jsstring
  ih_size :: jsstring
  ih_timestamp :: nat

record image_widget =
  imageHistory :: "image_history_entry list"
  widgetGenerating :: bool
  widgetStorage :: storage
  toasts :: "jsstring list"
  loadingOverlay :: bool
  widgetErrorsLogged :: "error list"

definition maxHistory :: nat where
  "maxHistory = 10"

definition saveImageHistory :: "image_history_entry list json \<Rightarrow> image_widget \<Rightarrow> image_widget" where
  "saveImageHistory codec w =
     w\<lparr>widgetStorage :=
         (widgetStorage w)(''valleytainment_image_history'' \<mapsto> stringify codec (imageHistory w))\<rparr>"

text \<open>
  \<^verbatim>\<open>loadImageHistory\<close>, called once by \<^verbatim>\<open>initImageGenerator\<close>: whatever array the stored text
  parses to becomes the history, of any length.
\<close>

definition loadImageHistory :: "image_history_entry list json \<Rightarrow> image_widget \<Rightarrow> image_widget" where
  "loadImageHistory codec w =
     (case widgetStorage w ''valleytainment_image_history'' of
        None \<Rightarrow> w
      | Some savedHistory \<Rightarrow>
          if savedHistory = [] then w
          else (case parse codec savedHistory of
                  Some h \<Rightarrow> w\<lparr>imageHistory := h\<rparr>
                | None \<Rightarrow> w\<lparr>imageHistory := [],
                             widgetErrorsLogged := widgetErrorsLogged w @ [SyntaxError]\<rparr>))"

text \<open>\<^verbatim>\<open>addToImageHistory\<close>: \<^verbatim>\<open>unshift\<close>, then one \<^verbatim>\<open>pop\<close> when the array is longer than the maximum.\<close>

definition addToImageHistory ::
  "image_history_entry list json \<Rightarrow> nat \<Rightarrow> jsstring \<Rightarrow> jsstring \<Rightarrow> jsstring \<Rightarrow> jsstring
   \<Rightarrow> image_widget \<Rightarrow> image_widget" where
  "addToImageHistory codec now imageUrl prompt sty sz w =
     (let historyItem = \<lparr> ih_imageUrl = imageUrl, ih_prompt = prompt, ih_style = sty,
                           ih_size = sz, ih_timestamp = now \<rparr>;
          h = historyItem # imageHistory w;
          h = (if length h > maxHistory then butlast h else h)
      in saveImageHistory codec (w\<lparr>imageHistory := h\<rparr>))"

definition SIZE_DIMENSIONS :: "(string \<times> dimensions) list" where
  "SIZE_DIMENSIONS =
     [(''small'', \<lparr> width = Finite 512, height = Finite 512 \<rparr>),
      (''medium'', \<lparr> width = Finite 768, height = Finite 512 \<rparr>),
      (''large'', \<lparr> width = Finite 1024, height = Finite 576 \<rparr>)]"

text \<open>
  The part of this script's \<^verbatim>\<open>generateImage\<close> that runs at the call: the check of the
  prompt, the check of \<^verbatim>\<open>isGenerating\<close>, and the start of \<^verbatim>\<open>generateImageFromPrompt\<close>, which
  sets \<^verbatim>\<open>isGenerating\<close> and runs to its first \<^verbatim>\<open>await\<close>. When \<^verbatim>\<open>SIZE_DIMENSIONS[size]\<close> is
  \<^verbatim>\<open>undefined\<close> (the size is no key of the table and no property of \<^verbatim>\<open>Object.prototype\<close>),
  reading \<^verbatim>\<open>dimensions.width\<close> throws before that \<^verbatim>\<open>await\<close> and the \<^verbatim>\<open>finally\<close> block clears
  the flag at once. The second component tells whether \<^verbatim>\<open>generateImageFromPrompt\<close> was
  called.
\<close>

definition widget_generateImage_start ::
  "jsstring \<Rightarrow> jsstring \<Rightarrow> image_widget \<Rightarrow> image_widget \<times> bool" where
  "widget_generateImage_start inputValue selectedSize w =
     (let userPrompt = trim inputValue in
      if userPrompt = [] then
        (w\<lparr>toasts := toasts w @ [js ''Please enter a description of what you want to see'']\<rparr>, False)
      else if widgetGenerating w then
        (w\<lparr>toasts := toasts w @ [js ''Please wait for the current image to finish generating'']\<rparr>,
         False)
      else
        (w\<lparr>loadingOverlay := True,
           widgetGenerating := ((\<exists>(k, d) \<in> set SIZE_DIMENSIONS. js k = selectedSize)
                                \<or> inherited selectedSize)\<rparr>, True))"

section \<open>AI image generator of the main script (initAIImageGenerator)\<close>

text \<open>
  The main script has an image generator of its own, the closure of
  \<^verbatim>\<open>initAIImageGenerator\<close>. The click handler of its generate button is registered once the
  stored history has been parsed and drawn; the handler reads the prompt input, the style
  and size selects and the result container, and later the download and share buttons,
  each of which may be missing from the page.
\<close>

record studio_page =
  sp_promptInput :: bool
  sp_styleSelect :: bool
  sp_sizeSelect :: bool
  sp_resultContainer :: bool
  sp_downloadButton :: bool
  sp_shareButton :: bool

text \<open>
  What \<^verbatim>\<open>styleImages[style] || styleImages.neon\<close> gives: one of the URLs of the table, or the
  member of \<^verbatim>\<open>Object.prototype\<close> found under the style's name.
\<close>

datatype studio_url = Url string | Inherited string

record studio_image =
  si_id :: nat
  si_prompt :: jsstring
  si_style :: jsstring
  si_url :: studio_url
  si_date :: nat

text \<open>
  What the result container shows: what the page came with, the loading spinner, a
  generated image with its \<^verbatim>\<open>alt\<close> text, or the failure message.
\<close>

datatype result_view = Untouched | Loading | Generated studio_url jsstring | Failed

text \<open>
  The state: the history array, the result container, whether the download and the share
  button have been enabled, the storage, the alerts shown, and the calls of
  \<^verbatim>\<open>generateImage(prompt, style, size)\<close> that have started and not yet returned, oldest first
  (each waits two seconds on a timer of its own).
\<close>

record studio =
  studioHistory :: "studio_image list"
  resultContainer :: result_view
  downloadEnabled :: bool
  shareEnabled :: bool
  studioStorage :: storage
  studioAlerts :: "jsstring list"
  inFlight :: "(jsstring \<times> jsstring \<times> jsstring) list"

definition styleImages :: "(string \<times> string) list" where
  "styleImages =
     [(''neon'', ''https://source.unsplash.com/random/800x800/?neon,city''),
      (''cyberpunk'', ''https://source.unsplash.com/random/800x800/?cyberpunk''),
      (''graffiti'', ''https://source.unsplash.com/random/800x800/?graffiti''),
      (''abstract'', ''https://source.unsplash.com/random/800x800/?abstract''),
      (''realistic'', ''https://source.unsplash.com/random/800x800/?urban''),
      (''anime'', ''https://source.unsplash.com/random/800x800/?anime''),
      (''synthwave'', ''https://source.unsplash.com/random/800x800/?synthwave''),
      (''vaporwave'', ''https://source.unsplash.com/random/800x800/?vaporwave''),
      (''glitch'', ''https://source.unsplash.com/random/800x800/?glitch''),
      (''3d'', ''https://source.unsplash.com/random/800x800/?3d,render'')]"

text \<open>The value \<^verbatim>\<open>generateImage\<close> returns once its two seconds are over.\<close>

definition studio_generateImage :: "jsstring \<Rightarrow> studio_url" where
  "studio_generateImage sty =
     (case find (\<lambda>(k, u). js k = sty) styleImages of
        Some (k, u) \<Rightarrow> Url u
      | None \<Rightarrow>
          (case find (\<lambda>k. js k = sty) Object_prototype_keys of
             Some k \<Rightarrow> Inherited k
           | None \<Rightarrow> Url ''https://source.unsplash.com/random/800x800/?neon,city''))"

text \<open>
  The click handler of the generate button, up to its \<^verbatim>\<open>await\<close>. Reading \<^verbatim>\<open>.value\<close> of a
  missing input, or writing \<^verbatim>\<open>innerHTML\<close> of a missing result container, throws \<open>TypeError\<close>
  and ends the handler. An empty prompt gives an alert. Otherwise the loading state is shown
  and \<^verbatim>\<open>generateImage\<close> is called. The handler reads no flag and disables no button.
\<close>

definition studio_click ::
  "studio_page \<Rightarrow> jsstring \<Rightarrow> jsstring \<Rightarrow> jsstring \<Rightarrow> studio \<Rightarrow> error + studio" where
  "studio_click page promptText sty sz s =
     (if \<not> sp_promptInput page \<or> \<not> sp_styleSelect page \<or> \<not> sp_sizeSelect page then Inl TypeError
      else
        let prompt = trim promptText in
        if prompt = [] then
          Inr (s\<lparr>studioAlerts := studioAlerts s
                   @ [js ''Please enter a prompt to generate an image.'']\<rparr>)
        else if \<not> sp_resultContainer page then Inl TypeError
        else Inr (s\<lparr>resultContainer := Loading, inFlight := inFlight s @ [(prompt, sty, sz)]\<rparr>))"

text \<open>The history of this generator: \<^verbatim>\<open>unshift\<close>, then \<^verbatim>\<open>slice(0, 8)\<close> when longer than 8.\<close>

definition studio_addToImageHistory ::
  "studio_image list json \<Rightarrow> nat \<Rightarrow> jsstring \<Rightarrow> jsstring \<Rightarrow> studio_url \<Rightarrow> studio \<Rightarrow> studio" where
  "studio_addToImageHistory codec now prompt sty url s =
     (let image = \<lparr> si_id = now, si_prompt = prompt, si_style = sty, si_url = url,
                     si_date = now \<rparr>;
          h = image # studioHistory s;
          h = (if length h > 8 then take 8 h else h)
      in s\<lparr>studioHistory := h,
            studioStorage := (studioStorage s)(''imageHistory'' \<mapsto> stringify codec h)\<rparr>)"

text \<open>
  The rest of the handler, run when the oldest waiting call returns: the image is shown,
  the two buttons are enabled and the image is added to the history. A missing button
  throws inside the \<^verbatim>\<open>try\<close>; the \<^verbatim>\<open>catch\<close> block shows the failure message and nothing is
  added. With nothing waiting there is nothing to run.
\<close>

definition studio_resume ::
  "studio_page \<Rightarrow> studio_image list json \<Rightarrow> nat \<Rightarrow> studio \<Rightarrow> studio" where
  "studio_resume page codec now s =
     (case inFlight s of
        [] \<Rightarrow> s
      | (prompt, sty, sz) # waiting \<Rightarrow>
          let imageUrl = studio_generateImage sty;
              s1 = s\<lparr>inFlight := waiting, resultContainer := Generated imageUrl prompt\<rparr>
          in if \<not> sp_downloadButton page then s1\<lparr>resultContainer := Failed\<rparr>
             else if \<not> sp_shareButton page
             then s1\<lparr>downloadEnabled := True, resultContainer := Failed\<rparr>
             else studio_addToImageHistory codec now prompt sty imageUrl
                    (s1\<lparr>downloadEnabled := True, shareEnabled := True\<rparr>))"

section \<open>Security manager\<close>

record security_config =
  csrf_enabled :: bool
  activityMonitoring_enabled :: bool
  trackRapidRequests :: bool
  maxRequestsPerMinute :: nat
  maxFailedAttempts :: nat
  blockThreshold :: nat
  blockDuration :: nat

definition SECURITY_CONFIG :: security_config where
  "SECURITY_CONFIG =
     \<lparr> csrf_enabled = True,
       activityMonitoring_enabled = True,
       trackRapidRequests = True,
       maxRequestsPerMinute = 60,
       maxFailedAttempts = 5,
       blockThreshold = 10,
       blockDuration = 300 \<rparr>"

text \<open>
  An activity record (its \<^verbatim>\<open>url\<close> and \<^verbatim>\<open>userAgent\<close> fields, read from the browser, are left
  out), the fields of a \<^verbatim>\<open>SecurityManager\<close>, and the object \<^verbatim>\<open>blockUser\<close> writes to storage.
  Times are milliseconds since the epoch.
\<close>

record activity =
  act_type :: jsstring
  act_details :: jsstring
  act_timestamp :: nat

record security_manager =
  csrfToken :: "jsstring option"
  suspiciousActivities :: "activity list"
  isBlocked :: bool
  blockExpiry :: "nat option"
  requestCount :: nat
  requestCountResetTimer :: bool
  failedAttempts :: nat

record block_record =
  blocked :: bool
  expiry :: nat

text \<open>
  A browser tab running the security manager: the manager object, the storage, whether the
  block overlay is in the page, and the times at which a pending \<^verbatim>\<open>setTimeout\<close> will call
  \<^verbatim>\<open>unblockUser\<close>.
\<close>

record security_tab =
  manager :: security_manager
  securityStorage :: storage
  blockMessage :: bool
  unblockTimers :: "nat list"

definition SecurityManager_constructor :: security_manager where
  "SecurityManager_constructor =
     \<lparr> csrfToken = None, suspiciousActivities = [], isBlocked = False, blockExpiry = None,
       requestCount = 0, requestCountResetTimer = False, failedAttempts = 0 \<rparr>"

text \<open>
  \<^verbatim>\<open>init\<close> calls \<^verbatim>\<open>applyCsp\<close>, \<^verbatim>\<open>applySecurityHeaders\<close>, \<^verbatim>\<open>initXssProtection\<close>,
  \<^verbatim>\<open>initCsrfProtection\<close>, \<^verbatim>\<open>initFormValidation\<close>, \<^verbatim>\<open>initActivityMonitoring\<close> and
  \<^verbatim>\<open>initDataProtection\<close>. Of the manager's fields they assign \<^verbatim>\<open>csrfToken\<close> (a fresh random
  token) and \<^verbatim>\<open>requestCountResetTimer\<close>; the rest of their work is meta tags, event listeners
  and wrappers around \<^verbatim>\<open>fetch\<close>, \<^verbatim>\<open>XMLHttpRequest\<close> and \<^verbatim>\<open>Storage\<close>. None of them reads
  \<^verbatim>\<open>localStorage\<close>.
\<close>

definition init :: "security_config \<Rightarrow> jsstring \<Rightarrow> security_manager \<Rightarrow> security_manager" where
  "init cfg token m =
     (let m1 = (if csrf_enabled cfg then m\<lparr>csrfToken := Some token\<rparr> else m)
      in if activityMonitoring_enabled cfg \<and> trackRapidRequests cfg
         then m1\<lparr>requestCountResetTimer := True\<rparr> else m1)"

definition logSuspiciousActivity ::
  "nat \<Rightarrow> jsstring \<Rightarrow> jsstring \<Rightarrow> security_manager \<Rightarrow> security_manager" where
  "logSuspiciousActivity now type details m =
     m\<lparr>suspiciousActivities := suspiciousActivities m
          @ [\<lparr> act_type = type, act_details = details, act_timestamp = now \<rparr>]\<rparr>"

text \<open>
  \<^verbatim>\<open>blockUser\<close>. The expiry is \<^verbatim>\<open>expiryTime.setSeconds(expiryTime.getSeconds() + blockDuration)\<close>:
  the local wall-clock time moved on by that many seconds and read back as a time value.
  That is the platform's calendar arithmetic, the parameter \<open>setSeconds\<close> (applied to the
  current time and the seconds to add); it is \<open>now + 1000 * blockDuration\<close> unless the local
  zone's offset changes in between. The timer that unblocks runs on elapsed time.
\<close>

definition blockUser ::
  "security_config \<Rightarrow> block_record json \<Rightarrow> (nat \<Rightarrow> nat \<Rightarrow> nat) \<Rightarrow> nat \<Rightarrow> security_tab
   \<Rightarrow> security_tab" where
  "blockUser cfg codec setSeconds now t =
     (let expiryTime = setSeconds now (blockDuration cfg) in
      t\<lparr>manager := (manager t)\<lparr>isBlocked := True, blockExpiry := Some expiryTime\<rparr>,
        securityStorage := (securityStorage t)
          (''valleytainment_security_block'' \<mapsto>
             stringify codec \<lparr> blocked = True, expiry = expiryTime \<rparr>),
        blockMessage := True,
        unblockTimers := unblockTimers t @ [now + blockDuration cfg * 1000]\<rparr>)"

definition unblockUser :: "security_tab \<Rightarrow> security_tab" where
  "unblockUser t =
     t\<lparr>manager := (manager t)\<lparr>isBlocked := False, blockExpiry := None\<rparr>,
       securityStorage := (securityStorage t)(''valleytainment_security_block'' := None),
       blockMessage := False\<rparr>"

definition checkRequestRate ::
  "(int \<Rightarrow> jsstring) \<Rightarrow> security_config \<Rightarrow> block_record json \<Rightarrow> (nat \<Rightarrow> nat \<Rightarrow> nat) \<Rightarrow> nat
   \<Rightarrow> security_tab \<Rightarrow> security_tab" where
  "checkRequestRate large cfg codec setSeconds now t =
     (if requestCount (manager t) > maxRequestsPerMinute cfg then
        let t1 = t\<lparr>manager := logSuspiciousActivity now (js ''Excessive request rate'')
                     (Number_toString large (Finite (int (requestCount (manager t))))
                        @ js '' requests in one minute'')
                     (manager t)\<rparr>
        in if length (suspiciousActivities (manager t1)) \<ge> blockThreshold cfg
           then blockUser cfg codec setSeconds now t1 else t1
      else t)"

definition checkFailedAttempts ::
  "(int \<Rightarrow> jsstring) \<Rightarrow> security_config \<Rightarrow> block_record json \<Rightarrow> (nat \<Rightarrow> nat \<Rightarrow> nat) \<Rightarrow> nat
   \<Rightarrow> security_tab \<Rightarrow> security_tab" where
  "checkFailedAttempts large cfg codec setSeconds now t =
     (if failedAttempts (manager t) \<ge> maxFailedAttempts cfg then
        let t1 = t\<lparr>manager := logSuspiciousActivity now (js ''Excessive failed attempts'')
                     (Number_toString large (Finite (int (failedAttempts (manager t))))
                        @ js '' failed attempts'')
                     (manager t)\<rparr>;
            t2 = (if length (suspiciousActivities (manager t1)) \<ge> blockThreshold cfg
                  then blockUser cfg codec setSeconds now t1 else t1)
        in t2\<lparr>manager := (manager t2)\<lparr>failedAttempts := 0\<rparr>\<rparr>
      else t)"

text \<open>
  A page reload: the tab's script state, page and timers are gone, the storage stays, and
  the \<^verbatim>\<open>DOMContentLoaded\<close> handler runs \<^verbatim>\<open>new SecurityManager(SECURITY_CONFIG)\<close> and \<^verbatim>\<open>init()\<close>.
\<close>

definition reload :: "security_config \<Rightarrow> jsstring \<Rightarrow> security_tab \<Rightarrow> security_tab" where
  "reload cfg token t =
     \<lparr> manager = init cfg token SecurityManager_constructor,
       securityStorage = securityStorage t,
       blockMessage = False,
       unblockTimers = [] \<rparr>"

section \<open>Sequences of insertions\<close>

text \<open>
  Insertions happen in separate event handlers. An insertion that throws ends its handler
  and leaves the state as it was at the throw; the next one starts from there.
\<close>

fun chat_insertions ::
  "chatbot_config \<Rightarrow> chat_page \<Rightarrow> chat_message list json \<Rightarrow> (role \<times> content \<times> nat) list
   \<Rightarrow> valleybot \<Rightarrow> valleybot" where
  "chat_insertions cfg page codec [] s = s"
| "chat_insertions cfg page codec ((r, message, now) # rest) s =
     (let outcome = (case r of
                       User \<Rightarrow> addUserMessage cfg page codec now message s
                     | Assistant \<Rightarrow> addBotMessage cfg page codec now message s)
      in chat_insertions cfg page codec rest
           (case outcome of Inr s' \<Rightarrow> s' | Inl (e, s') \<Rightarrow> s'))"

fun history_insertions ::
  "image_config \<Rightarrow> history_item list json \<Rightarrow> (nat \<times> jsstring \<times> jsstring) list
   \<Rightarrow> image_generator \<Rightarrow> image_generator" where
  "history_insertions cfg codec [] s = s"
| "history_insertions cfg codec ((now, prompt, imageUrl) # rest) s =
     history_insertions cfg codec rest (addToHistory cfg codec now prompt imageUrl s)"

fun widget_insertions ::
  "image_history_entry list json \<Rightarrow> (nat \<times> jsstring \<times> jsstring \<times> jsstring \<times> jsstring) list
   \<Rightarrow> image_widget \<Rightarrow> image_widget" where
  "widget_insertions codec [] w = w"
| "widget_insertions codec ((now, imageUrl, prompt, sty, sz) # rest) w =
     widget_insertions codec rest (addToImageHistory codec now imageUrl prompt sty sz w)"

section \<open>Concrete pages and codecs\<close>

text \<open>
  Values for the platform's parameters where a concrete run is evaluated: a codec for
  lists that reads \<^verbatim>\<open>[]\<close> and rejects every other text, a codec that rejects every text, a
  canvas, a rendering of large numbers that is right for the powers of ten from
  \<open>10\<^sup>2\<^sup>1\<close> on (\<open>10\<^sup>k\<close> is printed as \<^verbatim>\<open>1e+k\<close>), a clock in a zone whose offset never changes, pages
  with every element present, a chat page with a popup and no message container, a tab in
  which the security manager has just been initialised, for the enhanced image generator
  a history of twelve entries with a codec that reads it from the text that stands for its
  JSON form, and for the main script's image generator a page with every element and the
  state after \<^verbatim>\<open>initAIImageGenerator\<close> with an empty storage.
\<close>

definition list_json :: "'a list json" where
  "list_json =
     \<lparr> stringify = (\<lambda>v. if v = [] then js ''[]'' else js ''[...]''),
       parse = (\<lambda>t. if t = js ''[]'' then Some [] else None) \<rparr>"

definition opaque_json :: "'a json" where
  "opaque_json = \<lparr> stringify = (\<lambda>v. js ''{...}''), parse = (\<lambda>t. None) \<rparr>"

definition sample_canvas :: canvas where
  "sample_canvas =
     \<lparr> context2d = True,
       overflows = (\<lambda>line w. case w of Finite v \<Rightarrow> 12 * int (length line) > v - 40 | _ \<Rightarrow> False),
       toDataURL = (\<lambda>w h lines. js ''data:image/png;base64,'') \<rparr>"

definition exponent_form :: "int \<Rightarrow> jsstring" where
  "exponent_form v = js ''1e+'' @ decimal (length (decimal (nat v)) - 1)"

definition steady_clock :: "nat \<Rightarrow> nat \<Rightarrow> nat" where
  "steady_clock now seconds = now + seconds * 1000"

definition full_page :: image_page where
  "full_page =
     \<lparr> promptInput = True, imageOutput = True, loadingIndicator = True,
       errorMessage = True, saveImageButton = True \<rparr>"

definition full_chat_page :: chat_page where
  "full_chat_page = \<lparr> chatMessages = True, chatbotPopup = True, popupChatMessages = True \<rparr>"


definition fresh_tab :: security_tab where
  "fresh_tab =
     \<lparr> manager = init SECURITY_CONFIG (js ''c0ffee'') SecurityManager_constructor,
       securityStorage = Map.empty,
       blockMessage = False,
       unblockTimers = [] \<rparr>"

definition empty_widget :: image_widget where
  "empty_widget =
     \<lparr> imageHistory = [], widgetGenerating = False, widgetStorage = Map.empty, toasts = [],
       loadingOverlay = False, widgetErrorsLogged = [] \<rparr>"

definition twelve_entries :: "image_history_entry list" where
  "twelve_entries =
     replicate 12 \<lparr> ih_imageUrl = js ''images/placeholder-1.jpg'', ih_prompt = js ''a cat'',
                     ih_style = js ''neon'', ih_size = js ''medium'', ih_timestamp = 0 \<rparr>"

definition twelve_json :: "image_history_entry list json" where
  "twelve_json =
     \<lparr> stringify = (\<lambda>v. if v = [] then js ''[]'' else js ''[...]''),
       parse = (\<lambda>t. if t = js ''[]'' then Some []
                     else if t = js ''[twelve entries]'' then Some twelve_entries
                     else None) \<rparr>"

definition full_studio_page :: studio_page where
  "full_studio_page =
     \<lparr> sp_promptInput = True, sp_styleSelect = True, sp_sizeSelect = True,
       sp_resultContainer = True, sp_downloadButton = True, sp_shareButton = True \<rparr>"

definition empty_studio :: studio where
  "empty_studio =
     \<lparr> studioHistory = [], resultContainer = Untouched, downloadEnabled = False,
       shareEnabled = False, studioStorage = Map.empty, studioAlerts = [], inFlight = [] \<rparr>"

section \<open>Chat replies are a first-match table lookup\<close>

lemma scan_entries_None:
  "scan_entries t s = None \<longleftrightarrow> (\<forall>j < length t. \<not> includes_js s (fst (t ! j)))"
proof (induction t)
  case Nil
  then show ?case by simp
next
  case (Cons e t)
  obtain k v where e: "e = (k, v)" by (cases e)
  show ?case
  proof (cases "includes_js s k")
    case True
    then show ?thesis using e by auto
  next
    case False
    have "(\<forall>j < length (e # t). \<not> includes_js s (fst ((e # t) ! j)))
          \<longleftrightarrow> (\<forall>j < length t. \<not> includes_js s (fst (t ! j)))"
      using False e by (auto simp: nth_Cons split: nat.splits)
    then show ?thesis using False e Cons.IH by simp
  qed
qed

lemma scan_entries_first:
  assumes "i < length t" "includes_js s (fst (t ! i))"
    and "\<forall>j < i. \<not> includes_js s (fst (t ! j))"
  shows "scan_entries t s = Some (snd (t ! i))"
  using assms
proof (induction t arbitrary: i)
  case Nil
  then show ?case by simp
next
  case (Cons e t)
  obtain k v where e: "e = (k, v)" by (cases e)
  show ?case
  proof (cases i)
    case 0
    then show ?thesis using Cons.prems e by simp
  next
    case (Suc n)
    have nk: "\<not> includes_js s k" using Cons.prems(3) Suc e by force
    have "\<forall>j < n. \<not> includes_js s (fst (t ! j))"
    proof (intro allI impI)
      fix j assume "j < n"
      then have "Suc j < i" using Suc by simp
      then have "\<not> includes_js s (fst ((e # t) ! Suc j))" using Cons.prems(3) by blast
      then show "\<not> includes_js s (fst (t ! j))" by simp
    qed
    moreover have "n < length t" "includes_js s (fst (t ! n))"
      using Cons.prems(1,2) Suc by simp_all
    ultimately have "scan_entries t s = Some (snd (t ! n))" using Cons.IH by blast
    then show ?thesis using nk e Suc by simp
  qed
qed

lemma scan_entries_first_match:
  "first_match_reply t d s (case scan_entries t s of Some v \<Rightarrow> v | None \<Rightarrow> d)"
  unfolding first_match_reply_def
proof (intro conjI allI impI)
  fix i assume "i < length t"
    and "includes_js s (fst (t ! i)) \<and> (\<forall>j < i. \<not> includes_js s (fst (t ! j)))"
  then have "scan_entries t s = Some (snd (t ! i))" by (simp add: scan_entries_first)
  then show "(case scan_entries t s of Some v \<Rightarrow> v | None \<Rightarrow> d) = snd (t ! i)" by simp
next
  assume "\<forall>j < length t. \<not> includes_js s (fst (t ! j))"
  then have "scan_entries t s = None" by (simp add: scan_entries_None)
  then show "(case scan_entries t s of Some v \<Rightarrow> v | None \<Rightarrow> d) = d" by simp
qed

lemma scan_entries_append:
  "scan_entries (t @ u) s = (case scan_entries t s of Some v \<Rightarrow> Some v | None \<Rightarrow> scan_entries u s)"
  by (induction t) auto

lemma getEnhancedResponse_scan:
  "getEnhancedResponse lower m =
     (case scan_entries enhancedKeywords (lower m) of Some v \<Rightarrow> v | None \<Rightarrow> E_default)"
  by (simp add: getEnhancedResponse_def enhancedKeywords_def scan_entries_append Let_def
           split: option.splits)

lemma first_match_replyD1:
  "first_match_reply t d s r \<Longrightarrow> i < length t \<Longrightarrow> includes_js s (fst (t ! i))
   \<Longrightarrow> (\<forall>j < i. \<not> includes_js s (fst (t ! j))) \<Longrightarrow> r = snd (t ! i)"
  by (simp add: first_match_reply_def)

lemma first_match_replyD2:
  "first_match_reply t d s r \<Longrightarrow> list_all (\<lambda>e. \<not> includes_js s (fst e)) t \<Longrightarrow> r = d"
  by (simp add: first_match_reply_def list_all_length)

text \<open>
  Claim C2. For every chat input, and whatever the platform's lower-casing is, the reply of
  \<^verbatim>\<open>getLocalResponse\<close> and the reply of \<^verbatim>\<open>getEnhancedResponse\<close> are the response of the first
  pair of the keyword table, in table order, whose substring the lower-cased input
  contains, and the default string when the input contains none of them. For
  \<^verbatim>\<open>getLocalResponse\<close> the table is \<^verbatim>\<open>responses\<close>; for \<^verbatim>\<open>getEnhancedResponse\<close> it is
  \<^verbatim>\<open>enhancedResponses\<close> followed by the twelve substrings of the four \<^verbatim>\<open>if\<close> statements after
  the loop (\<open>enhancedKeywords\<close>).
\<close>

theorem chat_reply_first_match:
  "first_match_reply responses L_default (toLowerCase message)
     (getLocalResponse toLowerCase message)
   \<and> first_match_reply enhancedKeywords E_default (toLowerCase message)
     (getEnhancedResponse toLowerCase message)"
proof
  show "first_match_reply responses L_default (toLowerCase message)
          (getLocalResponse toLowerCase message)"
    unfolding getLocalResponse_def Let_def by (rule scan_entries_first_match)
next
  show "first_match_reply enhancedKeywords E_default (toLowerCase message)
          (getEnhancedResponse toLowerCase message)"
    unfolding getEnhancedResponse_scan by (rule scan_entries_first_match)
qed

theorem chat_reply_first_match_witness:
  "includes_js (ascii_lower (js ''Hello there'')) (js ''hello'')
   \<and> getLocalResponse ascii_lower (js ''Hello there'') = L_hello
   \<and> getEnhancedResponse ascii_lower (js ''Hello there'') = E_hello
   \<and> list_all (\<lambda>e. \<not> includes_js (ascii_lower (js ''Bonjour'')) (fst e)) enhancedKeywords
   \<and> getLocalResponse ascii_lower (js ''Bonjour'') = L_default
   \<and> getEnhancedResponse ascii_lower (js ''Bonjour'') = E_default"
proof -
  have inc: "includes_js (ascii_lower (js ''Hello there'')) (js ''hello'')"
    by (simp add: ascii_lower_def js_def)
  have noneE: "list_all (\<lambda>e. \<not> includes_js (ascii_lower (js ''Bonjour'')) (fst e)) enhancedKeywords"
    by (simp add: ascii_lower_def js_def enhancedKeywords_def enhancedResponses_def)
  have noneL: "list_all (\<lambda>e. \<not> includes_js (ascii_lower (js ''Bonjour'')) (fst e)) responses"
    by (simp add: ascii_lower_def js_def responses_def)
  note hello = chat_reply_first_match [of ascii_lower "js ''Hello there''"]
  note bonjour = chat_reply_first_match [of ascii_lower "js ''Bonjour''"]
  have l0: "0 < length responses" "fst (responses ! 0) = js ''hello''" "snd (responses ! 0) = L_hello"
    by (simp_all add: responses_def)
  have e0: "0 < length enhancedKeywords" "fst (enhancedKeywords ! 0) = js ''hello''"
    "snd (enhancedKeywords ! 0) = E_hello"
    by (simp_all add: enhancedKeywords_def enhancedResponses_def)
  have "getLocalResponse ascii_lower (js ''Hello there'') = L_hello"
    using first_match_replyD1 [OF conjunct1 [OF hello] l0(1)] inc l0(2,3) by simp
  moreover have "getEnhancedResponse ascii_lower (js ''Hello there'') = E_hello"
    using first_match_replyD1 [OF conjunct2 [OF hello] e0(1)] inc e0(2,3) by simp
  moreover have "getLocalResponse ascii_lower (js ''Bonjour'') = L_default"
    using first_match_replyD2 [OF conjunct1 [OF bonjour] noneL] .
  moreover have "getEnhancedResponse ascii_lower (js ''Bonjour'') = E_default"
    using first_match_replyD2 [OF conjunct2 [OF bonjour] noneE] .
  ultimately show ?thesis using inc noneE by simp
qed

section \<open>Prompts that cannot be encoded\<close>

lemma js_below: "c \<in> set (js s) \<Longrightarrow> c < 256"
  by (auto simp: js_def)

lemma encodeURIComponent_after_plain:
  assumes "\<forall>c \<in> set pre. c < 55296" and "encodeURIComponent rest = Inl e"
  shows "encodeURIComponent (pre @ rest) = Inl e"
  using assms
proof (induction pre)
  case Nil
  then show ?case by simp
next
  case (Cons c pre)
  then have ih: "encodeURIComponent (pre @ rest) = Inl e" by simp
  have c: "\<not> low_surrogate c" "\<not> high_surrogate c"
    using Cons.prems(1) by (simp_all add: low_surrogate_def high_surrogate_def)
  show ?case
  proof (cases "pre @ rest")
    case Nil
    then show ?thesis using ih by simp
  next
    case (Cons d tl)
    then show ?thesis using ih c by simp
  qed
qed

lemma enhancePrompt_default:
  "\<exists>suffix. enhancePrompt IMAGE_GENERATOR_CONFIG selected prompt =
     (js ''Valleytainment style, high quality, detailed'' @ js '', '') @ prompt @ suffix
     \<and> (suffix = [] \<or> (\<exists>m. suffix = js '', '' @ m))"
  by (auto simp: enhancePrompt_def Let_def IMAGE_GENERATOR_CONFIG_def split: option.splits)

lemma encode_lone_surrogate:
  "suffix = [] \<or> (\<exists>m. suffix = js '', '' @ m) \<Longrightarrow> encodeURIComponent (55296 # suffix) = Inl URIError"
  by (auto simp: js_def low_surrogate_def high_surrogate_def uri_unreserved_def)

lemma enhanced_lone_surrogate:
  "encodeURIComponent (enhancePrompt IMAGE_GENERATOR_CONFIG selected [55296]) = Inl URIError"
proof -
  obtain suffix where e: "enhancePrompt IMAGE_GENERATOR_CONFIG selected [55296] =
     (js ''Valleytainment style, high quality, detailed'' @ js '', '') @ [55296] @ suffix"
    and s: "suffix = [] \<or> (\<exists>m. suffix = js '', '' @ m)"
    using enhancePrompt_default by blast
  have "\<forall>c \<in> set (js ''Valleytainment style, high quality, detailed'' @ js '', ''). c < 55296"
    using js_below by fastforce
  then show ?thesis
    unfolding e using encodeURIComponent_after_plain encode_lone_surrogate [OF s] by simp
qed

lemma no_local_endpoint:
  assumes "\<forall>e \<in> set eps. ep_name e \<noteq> ''local''" and "encodeURIComponent prompt = Inl err"
  shows "try_image_endpoints large cfg cv prompt dims now eps = Inl All_image_generation_endpoints_failed"
  using assms by (induction eps) auto

text \<open>
  Whatever \<^verbatim>\<open>useLocalFallback\<close> says: with no endpoint named \<^verbatim>\<open>local\<close> in the list, a prompt
  that cannot be encoded makes \<^verbatim>\<open>fetchGeneratedImage\<close> throw.
\<close>

lemma fetch_fails_without_local_endpoint:
  assumes "\<forall>e \<in> set (endpoints cfg). ep_name e \<noteq> ''local''"
    and "encodeURIComponent prompt = Inl err"
  shows "fetchGeneratedImage large cfg cv prompt negativePrompt dims now =
           Inl All_image_generation_endpoints_failed"
  unfolding fetchGeneratedImage_def using assms by (intro no_local_endpoint) auto

lemma default_has_no_local_endpoint:
  "\<forall>e \<in> set (endpoints IMAGE_GENERATOR_CONFIG). ep_name e \<noteq> ''local''"
  by (simp add: IMAGE_GENERATOR_CONFIG_def)

section \<open>The URL built for the first endpoint\<close>










lemma decimal_samples:
  "decimal 512 = js ''512''" "decimal 768 = js ''768''" "decimal 42 = js ''42''"
  "decimal 1000 = js ''1000''"
  by (simp_all add: decimal.simps js_def)



section \<open>Validation of the prompt\<close>

lemma dropWhile_all: "(\<forall>c \<in> set s. P c) \<Longrightarrow> dropWhile P s = []"
  by (induction s) auto

lemma trim_all_space: "(\<forall>c \<in> set s. is_js_space c) \<Longrightarrow> trim s = []"
  by (simp add: trim_def dropWhile_all)

lemma trim_empty_iff: "trim s = [] \<longleftrightarrow> (\<forall>c \<in> set s. is_js_space c)"
proof
  assume "trim s = []"
  then have "dropWhile is_js_space (rev (dropWhile is_js_space s)) = []"
    by (simp add: trim_def)
  then have a: "\<forall>c \<in> set (dropWhile is_js_space s). is_js_space c"
    by (metis dropWhile_eq_Nil_conv set_rev)
  show "\<forall>c \<in> set s. is_js_space c"
  proof (rule ccontr)
    assume "\<not> (\<forall>c \<in> set s. is_js_space c)"
    then have ne: "dropWhile is_js_space s \<noteq> []" by (simp add: dropWhile_eq_Nil_conv)
    then have "\<not> is_js_space (hd (dropWhile is_js_space s))" by (rule hd_dropWhile)
    moreover have "hd (dropWhile is_js_space s) \<in> set (dropWhile is_js_space s)"
      using ne by simp
    ultimately show False using a by blast
  qed
qed (rule trim_all_space)

lemma trim_plain:
  assumes "s \<noteq> []" and "\<not> is_js_space (hd s)" and "\<not> is_js_space (last s)"
  shows "trim s = s"
proof -
  have 1: "dropWhile is_js_space s = s" using assms by (cases s) auto
  have "rev s \<noteq> []" "\<not> is_js_space (hd (rev s))" using assms by (simp_all add: hd_rev)
  then have "dropWhile is_js_space (rev s) = rev s" by (cases "rev s") auto
  then show ?thesis by (simp add: trim_def 1)
qed

lemma showError_keeps:
  "generationHistory (showError cfg page msg s) = generationHistory s"
  "analytics (showError cfg page msg s) = analytics s"
  "isGenerating (showError cfg page msg s) = isGenerating s"
  "imageStorage (showError cfg page msg s) = imageStorage s"
  by (simp_all add: showError_def)

lemma constructor_empty_storage:
  "generationHistory (ValleyImageGenerator_constructor IMAGE_GENERATOR_CONFIG codec acodec Map.empty) = []"
  "\<not> isGenerating (ValleyImageGenerator_constructor IMAGE_GENERATOR_CONFIG codec acodec Map.empty)"
  "errorDisplayed (ValleyImageGenerator_constructor IMAGE_GENERATOR_CONFIG codec acodec Map.empty) = None"
  by (simp_all add: ValleyImageGenerator_constructor_def Let_def loadGenerationHistory_def
        loadAnalytics_def IMAGE_GENERATOR_CONFIG_def)

lemma blank_is_space: "\<forall>c \<in> set (js ''   ''). is_js_space c"
  by (simp add: js_def is_js_space_def)

lemma trim_blank: "trim (js ''   '') = []"
  using blank_is_space by (rule trim_all_space)

lemma trim_long: "trim (replicate 1001 97) = replicate 1001 97"
  by (rule trim_plain) (simp_all add: is_js_space_def hd_replicate last_replicate)

text \<open>
  Claim C9 as stated fails: \<^verbatim>\<open>showError\<close> returns at once on a page that has no
  \<^verbatim>\<open>#image-error-message\<close> element. There \<^verbatim>\<open>generateImage\<close>, called with a prompt of three
  spaces in a new generator, returns with no error shown: the state is what it was and no
  error message is displayed.
\<close>

theorem no_error_shown_without_error_element:
  "generateImage_start exponent_form IMAGE_GENERATOR_CONFIG (full_page\<lparr>errorMessage := False\<rparr>)
       sample_canvas
       \<lparr> promptValue = js ''   '', negativePromptValue = None, widthValue = None,
         heightValue = None \<rparr> 42
       (ValleyImageGenerator_constructor IMAGE_GENERATOR_CONFIG list_json opaque_json Map.empty)
     = (ValleyImageGenerator_constructor IMAGE_GENERATOR_CONFIG list_json opaque_json Map.empty, None)
   \<and> errorDisplayed
       (ValleyImageGenerator_constructor IMAGE_GENERATOR_CONFIG list_json opaque_json Map.empty)
     = None"
  by (simp add: generateImage_start_def Let_def trim_blank showError_def full_page_def
        constructor_empty_storage)

text \<open>
  Claim C9, amended. When the prompt field holds only white space, or its trimmed text is
  longer than \<^verbatim>\<open>maxPromptLength\<close>, \<^verbatim>\<open>generateImage\<close> calls \<^verbatim>\<open>showError\<close> and returns: no
  generation is started, and the generation history, the analytics counters, the
  \<^verbatim>\<open>isGenerating\<close> flag and the storage are what they were. On a page that has the
  \<^verbatim>\<open>#image-error-message\<close> element the only change is the displayed error: the text
  \<^verbatim>\<open>Please enter a prompt to generate an image.\<close> when there is no prompt (no prompt input, or
  only white space in it), the text \<^verbatim>\<open>Prompt is too long. Maximum length is N characters.\<close>
  otherwise. On a page without that element nothing is shown and nothing changes.
\<close>

theorem generateImage_validates_first:
  assumes "(\<forall>c \<in> set (promptValue inp). is_js_space c)
           \<or> length (trim (promptValue inp)) > maxPromptLength cfg"
  shows "snd (generateImage_start large cfg page cv inp now s) = None
         \<and> generationHistory (fst (generateImage_start large cfg page cv inp now s))
             = generationHistory s
         \<and> analytics (fst (generateImage_start large cfg page cv inp now s)) = analytics s
         \<and> isGenerating (fst (generateImage_start large cfg page cv inp now s)) = isGenerating s
         \<and> imageStorage (fst (generateImage_start large cfg page cv inp now s)) = imageStorage s
         \<and> (errorMessage page \<longrightarrow>
              fst (generateImage_start large cfg page cv inp now s)
                = s\<lparr>errorDisplayed := Some
                      (if \<not> promptInput page \<or> trim (promptValue inp) = []
                       then js ''Please enter a prompt to generate an image.''
                       else js ''Prompt is too long. Maximum length is ''
                              @ Number_toString large (Finite (int (maxPromptLength cfg)))
                              @ js '' characters.'')\<rparr>)
         \<and> (\<not> errorMessage page \<longrightarrow> fst (generateImage_start large cfg page cv inp now s) = s)"
proof (cases "(if promptInput page then trim (promptValue inp) else []) = []")
  case True
  have ne: "js ''Please enter a prompt to generate an image.'' \<noteq> []" by (simp add: js_def)
  have c: "\<not> promptInput page \<or> trim (promptValue inp) = []" using True by (auto split: if_splits)
  have "generateImage_start large cfg page cv inp now s =
      (showError cfg page (js ''Please enter a prompt to generate an image.'') s, None)"
    using True by (simp add: generateImage_start_def Let_def)
  then show ?thesis using ne c by (auto simp: showError_def)
next
  case False
  then have p: "promptInput page" "trim (promptValue inp) \<noteq> []" by (auto split: if_splits)
  then have "length (trim (promptValue inp)) > maxPromptLength cfg"
    using assms trim_empty_iff by blast
  then have g: "generateImage_start large cfg page cv inp now s =
      (showError cfg page
         (js ''Prompt is too long. Maximum length is ''
            @ Number_toString large (Finite (int (maxPromptLength cfg)))
            @ js '' characters.'') s, None)"
    using p by (simp add: generateImage_start_def Let_def)
  have ne: "js ''Prompt is too long. Maximum length is ''
            @ Number_toString large (Finite (int (maxPromptLength cfg)))
            @ js '' characters.'' \<noteq> []"
    by (simp add: js_def)
  show ?thesis unfolding g using ne p by (auto simp: showError_def)
qed

theorem generateImage_validates_first_witness:
  "list_all is_js_space (js ''   '')
   \<and> errorMessage full_page
   \<and> generateImage_start exponent_form IMAGE_GENERATOR_CONFIG full_page sample_canvas
       \<lparr> promptValue = js ''   '', negativePromptValue = None, widthValue = None, heightValue = None \<rparr>
       42 (ValleyImageGenerator_constructor IMAGE_GENERATOR_CONFIG list_json opaque_json Map.empty)
     = ((ValleyImageGenerator_constructor IMAGE_GENERATOR_CONFIG list_json opaque_json Map.empty)
          \<lparr>errorDisplayed := Some (js ''Please enter a prompt to generate an image.'')\<rparr>,
        None)
   \<and> length (trim (replicate 1001 97)) > maxPromptLength IMAGE_GENERATOR_CONFIG
   \<and> generateImage_start exponent_form IMAGE_GENERATOR_CONFIG full_page sample_canvas
       \<lparr> promptValue = replicate 1001 97, negativePromptValue = None, widthValue = None,
         heightValue = None \<rparr>
       42 (ValleyImageGenerator_constructor IMAGE_GENERATOR_CONFIG list_json opaque_json Map.empty)
     = ((ValleyImageGenerator_constructor IMAGE_GENERATOR_CONFIG list_json opaque_json Map.empty)
          \<lparr>errorDisplayed :=
             Some (js ''Prompt is too long. Maximum length is 1000 characters.'')\<rparr>,
        None)"
proof -
  let ?s = "ValleyImageGenerator_constructor IMAGE_GENERATOR_CONFIG list_json opaque_json Map.empty"
  let ?blank = "\<lparr> promptValue = js ''   '', negativePromptValue = None, widthValue = None,
                   heightValue = None \<rparr>"
  let ?long = "\<lparr> promptValue = replicate 1001 97, negativePromptValue = None, widthValue = None,
                  heightValue = None \<rparr>"
  have m: "maxPromptLength IMAGE_GENERATOR_CONFIG = 1000" by (simp add: IMAGE_GENERATOR_CONFIG_def)
  have lg: "length (trim (replicate 1001 97)) > maxPromptLength IMAGE_GENERATOR_CONFIG"
    by (simp add: trim_long m)
  have fp: "errorMessage full_page" "promptInput full_page" by (simp_all add: full_page_def)
  have n: "Number_toString exponent_form (Finite 1000) = js ''1000''"
    by (simp add: Number_toString_def decimal_samples)
  have tl: "trim (replicate 1001 97) \<noteq> []" by (simp add: trim_long)
  note b0 = generateImage_validates_first [of ?blank IMAGE_GENERATOR_CONFIG exponent_form full_page
      sample_canvas 42 ?s]
  note l0 = generateImage_validates_first [of ?long IMAGE_GENERATOR_CONFIG exponent_form full_page
      sample_canvas 42 ?s]
  have b1: "snd (generateImage_start exponent_form IMAGE_GENERATOR_CONFIG full_page sample_canvas
              ?blank 42 ?s) = None"
    and b2: "fst (generateImage_start exponent_form IMAGE_GENERATOR_CONFIG full_page sample_canvas
              ?blank 42 ?s)
             = ?s\<lparr>errorDisplayed := Some (js ''Please enter a prompt to generate an image.'')\<rparr>"
    using b0 blank_is_space fp trim_blank by simp_all
  have l1: "snd (generateImage_start exponent_form IMAGE_GENERATOR_CONFIG full_page sample_canvas
              ?long 42 ?s) = None"
    and l2: "fst (generateImage_start exponent_form IMAGE_GENERATOR_CONFIG full_page sample_canvas
              ?long 42 ?s)
             = ?s\<lparr>errorDisplayed :=
                    Some (js ''Prompt is too long. Maximum length is 1000 characters.'')\<rparr>"
    using l0 lg fp tl by (simp_all add: m n) (simp add: n js_def)
  have b: "generateImage_start exponent_form IMAGE_GENERATOR_CONFIG full_page sample_canvas
              ?blank 42 ?s
           = (?s\<lparr>errorDisplayed := Some (js ''Please enter a prompt to generate an image.'')\<rparr>,
              None)"
    using b1 b2 by (simp add: prod_eq_iff)
  have l: "generateImage_start exponent_form IMAGE_GENERATOR_CONFIG full_page sample_canvas
              ?long 42 ?s
           = (?s\<lparr>errorDisplayed :=
                   Some (js ''Prompt is too long. Maximum length is 1000 characters.'')\<rparr>, None)"
    using l1 l2 by (simp add: prod_eq_iff)
  have sp': "list_all is_js_space (js ''   '')" using blank_is_space by (simp add: list_all_iff)
  show ?thesis using sp' fp(1) b lg l by (intro conjI)
qed

lemma generateImage_start_sets_flag:
  "generateImage_start large cfg page cv inp now s = (s1, Some p) \<Longrightarrow> isGenerating s1"
  by (auto simp: generateImage_start_def Let_def split: if_splits)

lemma generateImage_start_guard:
  "isGenerating s \<Longrightarrow> snd (generateImage_start large cfg page cv inp now s) = None"
  by (simp add: generateImage_start_def Let_def)

lemma generateImage_start_valid:
  assumes "promptInput page" and "trim (promptValue inp) \<noteq> []"
    and "length (trim (promptValue inp)) \<le> maxPromptLength cfg" and "\<not> isGenerating s"
  shows "snd (generateImage_start large cfg page cv inp now s) \<noteq> None
         \<and> isGenerating (fst (generateImage_start large cfg page cv inp now s))"
  using assms by (simp add: generateImage_start_def Let_def)

section \<open>Re-entry of the image generators\<close>

text \<open>
  The image generator class and the enhanced image generator check their \<^verbatim>\<open>isGenerating\<close>
  flag: while it is set, a call of \<^verbatim>\<open>generateImage\<close> starts no generation, leaves the flag
  set and leaves the history as it is (the enhanced generator also shows a toast).
\<close>

lemma class_generateImage_guarded:
  "isGenerating s \<Longrightarrow>
     snd (generateImage_start large cfg page cv inp now s) = None
     \<and> isGenerating (fst (generateImage_start large cfg page cv inp now s))
     \<and> generationHistory (fst (generateImage_start large cfg page cv inp now s))
         = generationHistory s"
  by (simp add: generateImage_start_def Let_def showError_keeps)

lemma enhanced_generateImage_guarded:
  "widgetGenerating w \<Longrightarrow>
     \<not> snd (widget_generateImage_start inputValue selectedSize w)
     \<and> widgetGenerating (fst (widget_generateImage_start inputValue selectedSize w))
     \<and> imageHistory (fst (widget_generateImage_start inputValue selectedSize w)) = imageHistory w"
  by (simp add: widget_generateImage_start_def Let_def)

lemma trim_samples:
  "trim (js ''a cat'') = js ''a cat''" "trim (js ''a dog'') = js ''a dog''"
  by (rule trim_plain; simp add: js_def is_js_space_def)+

lemma studio_click_calls_generateImage:
  assumes "sp_promptInput page" and "sp_styleSelect page" and "sp_sizeSelect page"
    and "sp_resultContainer page" and "trim promptText \<noteq> []"
  shows "studio_click page promptText sty sz s
           = Inr (s\<lparr>resultContainer := Loading,
                    inFlight := inFlight s @ [(trim promptText, sty, sz)]\<rparr>)"
  using assms by (simp add: studio_click_def Let_def)

lemma studio_two_clicks:
  "studio_click full_studio_page (js ''a cat'') (js ''neon'') (js ''medium'') empty_studio
     = Inr (empty_studio\<lparr>resultContainer := Loading,
                         inFlight := [(js ''a cat'', js ''neon'', js ''medium'')]\<rparr>)"
  "studio_click full_studio_page (js ''a dog'') (js ''anime'') (js ''large'')
       (empty_studio\<lparr>resultContainer := Loading,
                     inFlight := [(js ''a cat'', js ''neon'', js ''medium'')]\<rparr>)
     = Inr (empty_studio\<lparr>resultContainer := Loading,
                         inFlight := [(js ''a cat'', js ''neon'', js ''medium''),
                                      (js ''a dog'', js ''anime'', js ''large'')]\<rparr>)"
  by (simp_all add: studio_click_def Let_def full_studio_page_def trim_samples empty_studio_def)
     (simp_all add: js_def)

lemma studio_two_generations:
  "map si_prompt (studioHistory
     (studio_resume full_studio_page list_json 2001
       (studio_resume full_studio_page list_json 2000
          (empty_studio\<lparr>resultContainer := Loading,
                        inFlight := [(js ''a cat'', js ''neon'', js ''medium''),
                                     (js ''a dog'', js ''anime'', js ''large'')]\<rparr>))))
     = [js ''a dog'', js ''a cat'']"
  by (simp add: studio_resume_def Let_def full_studio_page_def empty_studio_def
        studio_addToImageHistory_def)

text \<open>
  Claim C7. The image generator of the main script does not guard against re-entry. On a
  page that has the elements its click handler reads, every click with a prompt that is
  not blank calls \<^verbatim>\<open>generateImage\<close>, whatever is already waiting: the new call joins the calls
  in flight. So from the state left by a first click, in which one generation is pending, a
  second click starts another generation; when the two calls return, two images are added
  to the history.
\<close>

theorem generate_click_not_guarded:
  "(sp_promptInput page \<and> sp_styleSelect page \<and> sp_sizeSelect page \<and> sp_resultContainer page
      \<and> trim promptText \<noteq> []
      \<longrightarrow> studio_click page promptText sty sz s
            = Inr (s\<lparr>resultContainer := Loading,
                     inFlight := inFlight s @ [(trim promptText, sty, sz)]\<rparr>))
   \<and> studio_click full_studio_page (js ''a cat'') (js ''neon'') (js ''medium'') empty_studio
       = Inr (empty_studio\<lparr>resultContainer := Loading,
                           inFlight := [(js ''a cat'', js ''neon'', js ''medium'')]\<rparr>)
   \<and> studio_click full_studio_page (js ''a dog'') (js ''anime'') (js ''large'')
         (empty_studio\<lparr>resultContainer := Loading,
                       inFlight := [(js ''a cat'', js ''neon'', js ''medium'')]\<rparr>)
       = Inr (empty_studio\<lparr>resultContainer := Loading,
                           inFlight := [(js ''a cat'', js ''neon'', js ''medium''),
                                        (js ''a dog'', js ''anime'', js ''large'')]\<rparr>)
   \<and> map si_prompt (studioHistory
       (studio_resume full_studio_page list_json 2001
         (studio_resume full_studio_page list_json 2000
            (empty_studio\<lparr>resultContainer := Loading,
                          inFlight := [(js ''a cat'', js ''neon'', js ''medium''),
                                       (js ''a dog'', js ''anime'', js ''large'')]\<rparr>))))
       = [js ''a dog'', js ''a cat'']"
  using studio_click_calls_generateImage [of page promptText sty sz s] studio_two_clicks
    studio_two_generations
  by blast

theorem generate_click_not_guarded_witness:
  "sp_promptInput full_studio_page \<and> sp_styleSelect full_studio_page
   \<and> sp_sizeSelect full_studio_page \<and> sp_resultContainer full_studio_page
   \<and> trim (js ''a dog'') \<noteq> []
   \<and> inFlight (empty_studio\<lparr>resultContainer := Loading,
                 inFlight := [(js ''a cat'', js ''neon'', js ''medium'')]\<rparr>) \<noteq> []
   \<and> studio_click full_studio_page (js ''a dog'') (js ''anime'') (js ''large'')
         (empty_studio\<lparr>resultContainer := Loading,
                       inFlight := [(js ''a cat'', js ''neon'', js ''medium'')]\<rparr>)
       = Inr (empty_studio\<lparr>resultContainer := Loading,
                           inFlight := [(js ''a cat'', js ''neon'', js ''medium''),
                                        (js ''a dog'', js ''anime'', js ''large'')]\<rparr>)"
proof -
  let ?s1 = "empty_studio\<lparr>resultContainer := Loading,
                          inFlight := [(js ''a cat'', js ''neon'', js ''medium'')]\<rparr>"
  have p: "sp_promptInput full_studio_page" "sp_styleSelect full_studio_page"
    "sp_sizeSelect full_studio_page" "sp_resultContainer full_studio_page"
    by (simp_all add: full_studio_page_def)
  have t: "trim (js ''a dog'') \<noteq> []" by (simp only: trim_samples) (simp add: js_def)
  have f: "inFlight ?s1 \<noteq> []" by simp
  note g = conjunct1 [OF generate_click_not_guarded [of full_studio_page "js ''a dog''"
        "js ''anime''" "js ''large''" ?s1]]
  have "studio_click full_studio_page (js ''a dog'') (js ''anime'') (js ''large'') ?s1
          = Inr (?s1\<lparr>resultContainer := Loading,
                     inFlight := inFlight ?s1 @ [(trim (js ''a dog''), js ''anime'', js ''large'')]\<rparr>)"
    using g p t by blast
  then have "studio_click full_studio_page (js ''a dog'') (js ''anime'') (js ''large'') ?s1
          = Inr (empty_studio\<lparr>resultContainer := Loading,
                           inFlight := [(js ''a cat'', js ''neon'', js ''medium''),
                                        (js ''a dog'', js ''anime'', js ''large'')]\<rparr>)"
    by (simp add: trim_samples)
  then show ?thesis using p t f by (intro conjI)
qed

section \<open>A failed generation with the fallback enabled\<close>

text \<open>
  Claim C1, at the input where the code departs from it. The shipped configuration has
  \<^verbatim>\<open>useLocalFallback: true\<close>. For the prompt made of the single code unit U+D800 (a lone
  surrogate), alone or enhanced with the prefix and any selected style,
  \<^verbatim>\<open>fetchGeneratedImage\<close> does not fall back to the canvas placeholder: it throws
  \<^verbatim>\<open>Error('All image generation endpoints failed')\<close>. \<^verbatim>\<open>generateImage\<close>, called with that
  prompt in a new generator on a page with every element, starts a generation whose promise
  is rejected with that error; when it resumes it adds nothing to the history and shows
  \<^verbatim>\<open>'Failed to generate image. Please try again.'\<close>.
\<close>

theorem image_fallback_not_reached:
  "useLocalFallback IMAGE_GENERATOR_CONFIG
   \<and> fetchGeneratedImage large IMAGE_GENERATOR_CONFIG cv [55296] negativePrompt dims now
       = Inl All_image_generation_endpoints_failed
   \<and> fetchGeneratedImage large IMAGE_GENERATOR_CONFIG cv
         (enhancePrompt IMAGE_GENERATOR_CONFIG selected [55296]) negativePrompt dims now
       = Inl All_image_generation_endpoints_failed
   \<and> snd (generateImage_start large IMAGE_GENERATOR_CONFIG full_page cv
         \<lparr> promptValue = [55296], negativePromptValue = None, widthValue = None,
           heightValue = None \<rparr> now
         (ValleyImageGenerator_constructor IMAGE_GENERATOR_CONFIG codec acodec Map.empty))
       = Some ([55296], Inl All_image_generation_endpoints_failed)
   \<and> generationHistory (generateImage_finish IMAGE_GENERATOR_CONFIG full_page lower codec acodec
         later ([55296], Inl All_image_generation_endpoints_failed) s) = generationHistory s
   \<and> errorDisplayed (generateImage_finish IMAGE_GENERATOR_CONFIG full_page lower codec acodec
         later ([55296], Inl All_image_generation_endpoints_failed) s)
       = Some (js ''Failed to generate image. Please try again.'')"
proof -
  let ?s0 = "ValleyImageGenerator_constructor IMAGE_GENERATOR_CONFIG codec acodec Map.empty"
  let ?inp = "\<lparr> promptValue = [55296], negativePromptValue = None, widthValue = None,
                 heightValue = None \<rparr>"
  have lone: "encodeURIComponent [55296] = Inl URIError"
    by (simp add: low_surrogate_def high_surrogate_def uri_unreserved_def)
  have u: "useLocalFallback IMAGE_GENERATOR_CONFIG" by (simp add: IMAGE_GENERATOR_CONFIG_def)
  have f1: "fetchGeneratedImage large IMAGE_GENERATOR_CONFIG cv [55296] negativePrompt dims now
       = Inl All_image_generation_endpoints_failed"
    using default_has_no_local_endpoint lone by (rule fetch_fails_without_local_endpoint)
  have f2: "\<And>sel neg d. fetchGeneratedImage large IMAGE_GENERATOR_CONFIG cv
         (enhancePrompt IMAGE_GENERATOR_CONFIG sel [55296]) neg d now
       = Inl All_image_generation_endpoints_failed"
    using default_has_no_local_endpoint enhanced_lone_surrogate
    by (rule fetch_fails_without_local_endpoint)
  have t: "trim [55296] = [55296]" by (rule trim_plain) (simp_all add: is_js_space_def)
  have m: "maxPromptLength IMAGE_GENERATOR_CONFIG = 1000" by (simp add: IMAGE_GENERATOR_CONFIG_def)
  have g: "snd (generateImage_start large IMAGE_GENERATOR_CONFIG full_page cv ?inp now ?s0)
       = Some ([55296], Inl All_image_generation_endpoints_failed)"
    by (simp add: generateImage_start_def Let_def full_page_def t m constructor_empty_storage f2)
  have e: "js ''Failed to generate image. Please try again.'' \<noteq> []" by (simp add: js_def)
  have h: "generationHistory (generateImage_finish IMAGE_GENERATOR_CONFIG full_page lower codec acodec
         later ([55296], Inl All_image_generation_endpoints_failed) s) = generationHistory s"
    by (simp add: generateImage_finish_def Let_def showError_keeps hideLoading_def)
  have d: "errorDisplayed (generateImage_finish IMAGE_GENERATOR_CONFIG full_page lower codec acodec
         later ([55296], Inl All_image_generation_endpoints_failed) s)
       = Some (js ''Failed to generate image. Please try again.'')"
    using e by (simp add: generateImage_finish_def Let_def showError_def full_page_def)
  show ?thesis using u f1 f2 g h d by (intro conjI)
qed

section \<open>History lists stay within their caps\<close>

lemma addToHistory_history:
  "generationHistory (addToHistory cfg codec now prompt imageUrl s) =
     take (maxHistoryItems cfg)
       (\<lparr> hi_prompt = prompt, hi_imageUrl = imageUrl, hi_style = selectedStyle s,
          hi_timestamp = now \<rparr> # generationHistory s)"
  by (simp add: addToHistory_def Let_def saveGenerationHistory_def)

lemma addToImageHistory_history:
  assumes "length (imageHistory w) \<le> maxHistory"
  shows "imageHistory (addToImageHistory codec now imageUrl prompt sty sz w) =
     take maxHistory
       (\<lparr> ih_imageUrl = imageUrl, ih_prompt = prompt, ih_style = sty, ih_size = sz,
          ih_timestamp = now \<rparr> # imageHistory w)"
proof -
  let ?h = "\<lparr> ih_imageUrl = imageUrl, ih_prompt = prompt, ih_style = sty, ih_size = sz,
              ih_timestamp = now \<rparr> # imageHistory w"
  have r: "imageHistory (addToImageHistory codec now imageUrl prompt sty sz w) =
             (if length ?h > maxHistory then butlast ?h else ?h)"
    by (simp add: addToImageHistory_def Let_def saveImageHistory_def)
  show ?thesis
  proof (cases "length ?h > maxHistory")
    case True
    then have "length ?h - 1 = maxHistory" using assms by simp
    then have "butlast ?h = take maxHistory ?h" by (metis butlast_conv_take)
    then show ?thesis using r True by simp
  next
    case False
    then have "take maxHistory ?h = ?h" by simp
    then show ?thesis using r False by simp
  qed
qed

lemma saveChatHistory_history:
  "0 < cb_maxHistoryItems cfg \<Longrightarrow>
   chatHistory (saveChatHistory cfg codec s) =
     drop (length (chatHistory s) - cb_maxHistoryItems cfg) (chatHistory s)"
  by (simp add: saveChatHistory_def Let_def slice_last_def)

lemma addMessageToChat_history:
  "addMessageToChat cfg page m r s = Inr s' \<Longrightarrow> chatHistory s' = chatHistory s"
  "addMessageToChat cfg page m r s = Inl (e, s') \<Longrightarrow> chatHistory s' = chatHistory s"
  by (auto simp: addMessageToChat_def split: if_splits sum.splits)

lemma addToPopup_history:
  "addToPopup cfg page m r s = Inr s' \<Longrightarrow> chatHistory s' = chatHistory s"
  "addToPopup cfg page m r s = Inl (e, s') \<Longrightarrow> chatHistory s' = chatHistory s"
  by (auto simp: addToPopup_def split: if_splits sum.splits)

lemma addUserMessage_history:
  assumes "0 < cb_maxHistoryItems cfg"
  shows "addUserMessage cfg page codec now m s = Inr s' \<Longrightarrow>
           chatHistory s' =
             drop (length (chatHistory s) + 1 - cb_maxHistoryItems cfg)
               (chatHistory s @ [\<lparr>msg_role = User, msg_content = m, msg_timestamp = now\<rparr>])"
    and "addUserMessage cfg page codec now m s = Inl (e, s') \<Longrightarrow> chatHistory s' = chatHistory s"
  using assms
  by (auto simp: addUserMessage_def saveChatHistory_history pushMessage_def
           dest!: addMessageToChat_history addToPopup_history split: sum.splits)

lemma addBotMessage_history:
  assumes "0 < cb_maxHistoryItems cfg"
  shows "addBotMessage cfg page codec now m s = Inr s' \<Longrightarrow>
           chatHistory s' =
             drop (length (chatHistory s) + 1 - cb_maxHistoryItems cfg)
               (chatHistory s @ [\<lparr>msg_role = Assistant, msg_content = m, msg_timestamp = now\<rparr>])"
    and "addBotMessage cfg page codec now m s = Inl (e, s') \<Longrightarrow> chatHistory s' = chatHistory s"
  using assms
  by (auto simp: addBotMessage_def saveChatHistory_history pushMessage_def
           dest!: addMessageToChat_history addToPopup_history split: sum.splits)

lemma chat_cap: "cb_maxHistoryItems CHATBOT_CONFIG = 50"
  by (simp add: CHATBOT_CONFIG_def)

lemma image_cap: "maxHistoryItems IMAGE_GENERATOR_CONFIG = 10"
  by (simp add: IMAGE_GENERATOR_CONFIG_def)

lemma chat_insertions_within_cap:
  assumes "0 < cb_maxHistoryItems cfg"
  shows "length (chatHistory s) \<le> cb_maxHistoryItems cfg \<Longrightarrow>
         length (chatHistory (chat_insertions cfg page codec ms s)) \<le> cb_maxHistoryItems cfg"
proof (induction ms arbitrary: s)
  case Nil
  then show ?case by simp
next
  case (Cons ev ms)
  obtain r m now where ev: "ev = (r, m, now)" by (cases ev)
  define outcome where "outcome =
    (case r of User \<Rightarrow> addUserMessage cfg page codec now m s
             | Assistant \<Rightarrow> addBotMessage cfg page codec now m s)"
  define s1 where "s1 = (case outcome of Inr s' \<Rightarrow> s' | Inl (e, s') \<Rightarrow> s')"
  have "length (chatHistory s1) \<le> cb_maxHistoryItems cfg"
  proof (cases outcome)
    case (Inl p)
    obtain e s' where p: "p = (e, s')" by (cases p)
    have "chatHistory s' = chatHistory s"
      using Inl p addUserMessage_history(2) [OF assms] addBotMessage_history(2) [OF assms]
      unfolding outcome_def by (cases r) auto
    then show ?thesis using Inl p Cons.prems by (simp add: s1_def)
  next
    case (Inr s')
    have "\<exists>x. chatHistory s' =
            drop (length (chatHistory s) + 1 - cb_maxHistoryItems cfg) (chatHistory s @ [x])"
      using Inr addUserMessage_history(1) [OF assms] addBotMessage_history(1) [OF assms]
      unfolding outcome_def by (cases r) auto
    then have "length (chatHistory s') \<le> cb_maxHistoryItems cfg" using assms by auto
    then show ?thesis using Inr by (simp add: s1_def)
  qed
  then have "length (chatHistory (chat_insertions cfg page codec ms s1)) \<le> cb_maxHistoryItems cfg"
    by (rule Cons.IH)
  then show ?case by (simp add: ev s1_def outcome_def Let_def)
qed

lemma history_insertions_within_cap:
  "ms \<noteq> [] \<or> length (generationHistory s) \<le> maxHistoryItems cfg \<Longrightarrow>
   length (generationHistory (history_insertions cfg codec ms s)) \<le> maxHistoryItems cfg"
proof (induction ms arbitrary: s)
  case Nil
  then show ?case by simp
next
  case (Cons ev ms)
  obtain now prompt imageUrl where ev: "ev = (now, prompt, imageUrl)" by (cases ev)
  have "length (generationHistory (addToHistory cfg codec now prompt imageUrl s)) \<le> maxHistoryItems cfg"
    by (simp add: addToHistory_history)
  then show ?case using Cons.IH ev by simp
qed

lemma widget_insertions_within_cap:
  "length (imageHistory w) \<le> maxHistory \<Longrightarrow>
   length (imageHistory (widget_insertions codec ms w)) \<le> maxHistory"
proof (induction ms arbitrary: w)
  case Nil
  then show ?case by simp
next
  case (Cons ev ms)
  obtain now imageUrl prompt sty sz where ev: "ev = (now, imageUrl, prompt, sty, sz)"
    by (cases ev)
  have "length (imageHistory (addToImageHistory codec now imageUrl prompt sty sz w)) \<le> maxHistory"
    using Cons.prems by (simp add: addToImageHistory_history)
  then show ?case using Cons.IH ev by simp
qed

lemma saveChatHistory_within_cap:
  "length (chatHistory (saveChatHistory CHATBOT_CONFIG codec s)) \<le> 50"
  by (simp add: saveChatHistory_history chat_cap)

lemma completed_chat_insertion_saves:
  "addUserMessage cfg page codec now m s = Inr s' \<Longrightarrow> \<exists>s2. s' = saveChatHistory cfg codec s2"
  "addBotMessage cfg page codec now m s = Inr s' \<Longrightarrow> \<exists>s2. s' = saveChatHistory cfg codec s2"
  by (auto simp: addUserMessage_def addBotMessage_def split: sum.splits)

lemma addToImageHistory_length:
  "length (imageHistory (addToImageHistory codec now imageUrl prompt sty sz w))
     = (if length (imageHistory w) < maxHistory then Suc (length (imageHistory w))
        else length (imageHistory w))"
  by (simp add: addToImageHistory_def Let_def saveImageHistory_def)

lemma load_twelve:
  "imageHistory (loadImageHistory twelve_json
      (empty_widget\<lparr>widgetStorage :=
         [''valleytainment_image_history'' \<mapsto> js ''[twelve entries]'']\<rparr>)) = twelve_entries"
  by (simp add: loadImageHistory_def twelve_json_def) (simp add: js_def)

text \<open>
  Claim C3, at the input where the code departs from it. The chat history and the history
  of the image generator class are cut to their caps by every insertion: \<^verbatim>\<open>saveChatHistory\<close>,
  which ends every completed insertion into the chat history, leaves at most 50 messages,
  and \<^verbatim>\<open>addToHistory\<close> leaves at most 10 items, from whatever list they start. The enhanced
  image generator removes one entry only: \<^verbatim>\<open>addToImageHistory\<close> leaves a list that was at or
  over the cap at the length it had. Its \<^verbatim>\<open>loadImageHistory\<close> takes the stored array as it
  is, so with twelve entries stored under \<^verbatim>\<open>valleytainment_image_history\<close> the history has
  twelve entries after loading and twelve after an insertion has completed, with
  \<^verbatim>\<open>maxHistory\<close> at 10.
\<close>

theorem image_history_exceeds_cap:
  "maxHistory = 10
   \<and> length twelve_entries = 12
   \<and> imageHistory (loadImageHistory twelve_json
        (empty_widget\<lparr>widgetStorage :=
           [''valleytainment_image_history'' \<mapsto> js ''[twelve entries]'']\<rparr>)) = twelve_entries
   \<and> length (imageHistory (addToImageHistory twelve_json 1 (js ''images/placeholder-2.jpg'')
        (js ''a dog'') (js ''neon'') (js ''medium'')
        (loadImageHistory twelve_json
           (empty_widget\<lparr>widgetStorage :=
              [''valleytainment_image_history'' \<mapsto> js ''[twelve entries]'']\<rparr>)))) = 12
   \<and> length (imageHistory (addToImageHistory wcodec now imageUrl prompt sty sz w))
       = (if length (imageHistory w) < 10 then Suc (length (imageHistory w))
          else length (imageHistory w))
   \<and> length (generationHistory (addToHistory IMAGE_GENERATOR_CONFIG hcodec now prompt imageUrl g))
       \<le> 10
   \<and> length (chatHistory (saveChatHistory CHATBOT_CONFIG ccodec b)) \<le> 50"
proof -
  have m: "maxHistory = 10" by (simp add: maxHistory_def)
  have t: "length twelve_entries = 12" by (simp add: twelve_entries_def)
  have a: "length (imageHistory (addToImageHistory twelve_json 1 (js ''images/placeholder-2.jpg'')
        (js ''a dog'') (js ''neon'') (js ''medium'')
        (loadImageHistory twelve_json
           (empty_widget\<lparr>widgetStorage :=
              [''valleytainment_image_history'' \<mapsto> js ''[twelve entries]'']\<rparr>)))) = 12"
    by (simp only: addToImageHistory_length load_twelve t m) simp
  have g: "length (imageHistory (addToImageHistory wcodec now imageUrl prompt sty sz w))
       = (if length (imageHistory w) < 10 then Suc (length (imageHistory w))
          else length (imageHistory w))"
    by (simp only: addToImageHistory_length m)
  have h: "length (generationHistory (addToHistory IMAGE_GENERATOR_CONFIG hcodec now prompt imageUrl g))
       \<le> 10"
    by (simp add: addToHistory_history image_cap)
  show ?thesis
    by (rule conjI [OF m conjI [OF t conjI [OF load_twelve conjI [OF a conjI [OF g
          conjI [OF h saveChatHistory_within_cap]]]]]])
qed

section \<open>The order of the image history\<close>

text \<open>
  Claim C4 as stated fails: after two insertions the second item is at index 0 and the first
  one is last, so the stored array is newest first.
\<close>

theorem newest_image_entry_is_first:
  "map hi_prompt (generationHistory
     (addToHistory IMAGE_GENERATOR_CONFIG list_json 2 (js ''second'') (js ''u2'')
       (addToHistory IMAGE_GENERATOR_CONFIG list_json 1 (js ''first'') (js ''u1'')
         (ValleyImageGenerator_constructor IMAGE_GENERATOR_CONFIG list_json opaque_json Map.empty))))
     = [js ''second'', js ''first'']
   \<and> [js ''second'', js ''first''] \<noteq> [js ''first'', js ''second'']"
  by (simp add: addToHistory_history constructor_empty_storage image_cap) (simp add: js_def)

text \<open>
  Claim C4, amended. \<^verbatim>\<open>addToHistory\<close> puts every new entry first (the stored array is ordered
  newest first, oldest last) and keeps the first \<^verbatim>\<open>maxHistoryItems\<close> entries: truncation at
  the cap removes entries from the end of the array, which are the oldest.
\<close>

theorem image_history_newest_first:
  "generationHistory (addToHistory cfg codec now prompt imageUrl s) =
     take (maxHistoryItems cfg)
       (\<lparr> hi_prompt = prompt, hi_imageUrl = imageUrl, hi_style = selectedStyle s,
          hi_timestamp = now \<rparr> # generationHistory s)
   \<and> imageStorage (addToHistory cfg codec now prompt imageUrl s) ''valleytainment_image_history''
       = Some (stringify codec (generationHistory (addToHistory cfg codec now prompt imageUrl s)))"
  by (simp add: addToHistory_def Let_def saveGenerationHistory_def)

section \<open>Loading a malformed history\<close>

lemma loadAnalytics_keeps_history:
  "generationHistory (loadAnalytics cfg acodec s) = generationHistory s"
  by (simp add: loadAnalytics_def split: option.splits)

text \<open>
  Claim C5. When the text stored under the image-history key is one that \<^verbatim>\<open>JSON.parse\<close>
  rejects, \<^verbatim>\<open>loadGenerationHistory\<close> leaves the generation history empty, from whatever
  state it is called, and so does the constructor that calls it. When the text stored under
  the chat-history key is one that \<^verbatim>\<open>JSON.parse\<close> rejects, the \<^verbatim>\<open>ValleyBot\<close> constructor (the
  only caller of \<^verbatim>\<open>loadChatHistory\<close>) leaves the chat history empty, and so does
  \<^verbatim>\<open>loadChatHistory\<close> from whatever state when the stored text is not the empty string.
  The load functions are total: the \<open>SyntaxError\<close> is caught inside them.
\<close>

theorem malformed_history_loads_empty:
  assumes "parse codec saved = None" and "parse ccodec csaved = None"
  shows "generationHistory (loadGenerationHistory codec
           (s\<lparr>imageStorage := (imageStorage s)(''valleytainment_image_history'' \<mapsto> saved)\<rparr>)) = []
         \<and> generationHistory (ValleyImageGenerator_constructor cfg codec acodec
              (st(''valleytainment_image_history'' \<mapsto> saved))) = []
         \<and> chatHistory (ValleyBot_constructor ccodec
              (st(''valleybot_chat_history'' \<mapsto> csaved))) = []
         \<and> (csaved \<noteq> [] \<longrightarrow> chatHistory (loadChatHistory ccodec
              (b\<lparr>chatStorage := (chatStorage b)(''valleybot_chat_history'' \<mapsto> csaved)\<rparr>)) = [])"
  using assms
  by (simp add: loadGenerationHistory_def ValleyImageGenerator_constructor_def Let_def
        loadAnalytics_keeps_history ValleyBot_constructor_def loadChatHistory_def)

theorem malformed_history_loads_empty_witness:
  "parse list_json (js ''{not json'') = (None :: history_item list option)
   \<and> parse list_json (js ''[1,2'') = (None :: chat_message list option)
   \<and> generationHistory (ValleyImageGenerator_constructor IMAGE_GENERATOR_CONFIG list_json opaque_json
        (Map.empty(''valleytainment_image_history'' \<mapsto> js ''{not json''))) = []
   \<and> chatHistory (ValleyBot_constructor list_json
        (Map.empty(''valleybot_chat_history'' \<mapsto> js ''[1,2''))) = []"
proof -
  have p1: "parse list_json (js ''{not json'') = (None :: history_item list option)"
    by (simp add: list_json_def js_def)
  have p2: "parse list_json (js ''[1,2'') = (None :: chat_message list option)"
    by (simp add: list_json_def js_def)
  note t = malformed_history_loads_empty [OF p1 p2, where cfg = IMAGE_GENERATOR_CONFIG
      and acodec = opaque_json and st = Map.empty]
  show ?thesis using p1 p2 t by blast
qed

section \<open>The security block across a reload\<close>

lemma blockUser_effect:
  "isBlocked (manager (blockUser cfg codec setSeconds now t))"
  "blockExpiry (manager (blockUser cfg codec setSeconds now t))
     = Some (setSeconds now (blockDuration cfg))"
  "securityStorage (blockUser cfg codec setSeconds now t) ''valleytainment_security_block''
     = Some (stringify codec \<lparr> blocked = True, expiry = setSeconds now (blockDuration cfg) \<rparr>)"
  by (simp_all add: blockUser_def Let_def)

lemma init_keeps_block:
  "isBlocked (init cfg token m) = isBlocked m" "blockExpiry (init cfg token m) = blockExpiry m"
  by (simp_all add: init_def Let_def)

lemma reload_effect:
  "\<not> isBlocked (manager (reload cfg token t))"
  "blockExpiry (manager (reload cfg token t)) = None"
  "securityStorage (reload cfg token t) = securityStorage t"
  "\<not> blockMessage (reload cfg token t)"
  by (simp_all add: reload_def init_keeps_block SecurityManager_constructor_def)

text \<open>
  \<^verbatim>\<open>checkRequestRate\<close> and \<^verbatim>\<open>checkFailedAttempts\<close> call \<^verbatim>\<open>blockUser\<close> when their limit is passed
  and the logged activities, the new one included, reach \<^verbatim>\<open>blockThreshold\<close>.
\<close>

lemma threshold_blocks:
  "requestCount (manager t) > maxRequestsPerMinute cfg
   \<Longrightarrow> length (suspiciousActivities (manager t)) + 1 \<ge> blockThreshold cfg
   \<Longrightarrow> isBlocked (manager (checkRequestRate large cfg codec setSeconds now t))
       \<and> securityStorage (checkRequestRate large cfg codec setSeconds now t)
             ''valleytainment_security_block''
           = Some (stringify codec
                     \<lparr> blocked = True, expiry = setSeconds now (blockDuration cfg) \<rparr>)"
  "failedAttempts (manager t) \<ge> maxFailedAttempts cfg
   \<Longrightarrow> length (suspiciousActivities (manager t)) + 1 \<ge> blockThreshold cfg
   \<Longrightarrow> isBlocked (manager (checkFailedAttempts large cfg codec setSeconds now t))
       \<and> securityStorage (checkFailedAttempts large cfg codec setSeconds now t)
             ''valleytainment_security_block''
           = Some (stringify codec
                     \<lparr> blocked = True, expiry = setSeconds now (blockDuration cfg) \<rparr>)"
  by (simp_all add: blockUser_effect checkRequestRate_def checkFailedAttempts_def Let_def
        logSuspiciousActivity_def)

text \<open>
  Claim C8, at the input where the code departs from it. \<^verbatim>\<open>blockUser\<close> sets the blocked flag
  and the expiry and writes both to storage under \<^verbatim>\<open>valleytainment_security_block\<close>, as the
  claim says. A reload at any time, so also before the expiry, finds that record still in
  storage, but the new manager is not blocked, has no expiry and shows no block message:
  nothing reads the record back. In the shipped configuration, in a zone whose clock offset
  does not change, a block at time 1000 expires at 301000.
\<close>

theorem block_not_restored_on_reload:
  "isBlocked (manager (blockUser cfg codec setSeconds now t))
   \<and> blockExpiry (manager (blockUser cfg codec setSeconds now t))
       = Some (setSeconds now (blockDuration cfg))
   \<and> securityStorage (blockUser cfg codec setSeconds now t) ''valleytainment_security_block''
       = Some (stringify codec \<lparr> blocked = True, expiry = setSeconds now (blockDuration cfg) \<rparr>)
   \<and> securityStorage (reload cfg token (blockUser cfg codec setSeconds now t))
         ''valleytainment_security_block''
       = Some (stringify codec \<lparr> blocked = True, expiry = setSeconds now (blockDuration cfg) \<rparr>)
   \<and> \<not> isBlocked (manager (reload cfg token (blockUser cfg codec setSeconds now t)))
   \<and> blockExpiry (manager (reload cfg token (blockUser cfg codec setSeconds now t))) = None
   \<and> \<not> blockMessage (reload cfg token (blockUser cfg codec setSeconds now t))
   \<and> blockExpiry (manager (blockUser SECURITY_CONFIG opaque_json steady_clock 1000 fresh_tab))
       = Some 301000
   \<and> \<not> isBlocked (manager (reload SECURITY_CONFIG (js ''decade'')
          (blockUser SECURITY_CONFIG opaque_json steady_clock 1000 fresh_tab)))"
proof -
  have e: "blockExpiry (manager (blockUser SECURITY_CONFIG opaque_json steady_clock 1000 fresh_tab))
       = Some 301000"
    by (simp add: blockUser_effect steady_clock_def SECURITY_CONFIG_def)
  show ?thesis using e by (simp add: blockUser_effect reload_effect)
qed

section \<open>The reply of getBotResponse\<close>

lemma processMessageText_shipped: "processMessageText CHATBOT_CONFIG = Some SyntaxError"
  by (simp add: processMessageText_def CHATBOT_CONFIG_def emojiMap_shortcodes_def)

lemma addBotMessage_throws:
  assumes "processMessageText cfg = Some e" and "chatbotPopup page"
    and "chatMessages page \<or> popupChatMessages page"
  shows "addBotMessage cfg page codec now m s = Inl (e, s)"
  using assms
  by (auto simp: addBotMessage_def addMessageToChat_def addToPopup_def addMessageToElement_def)

lemma sorted_chat_endpoints_nonempty:
  "cb_endpoints cfg \<noteq> [] \<Longrightarrow> sort_key cep_priority (cb_endpoints cfg) \<noteq> []"
  by (metis length_sort list.size(3) length_0_conv)

lemma fetchAIResponse_returns:
  "cb_endpoints cfg \<noteq> [] \<Longrightarrow> fetchAIResponse lower cfg message = Inr (getEnhancedResponse lower message)"
  using sorted_chat_endpoints_nonempty [of cfg]
  by (cases "sort_key cep_priority (cb_endpoints cfg)") (simp_all add: fetchAIResponse_def)


text \<open>
  With rendering that does not throw (for instance \<^verbatim>\<open>personality.emoji\<close> off), a popup
  element and at least one endpoint, \<^verbatim>\<open>getBotResponse\<close> appends the enhanced response, logs
  no error and never calls \<^verbatim>\<open>getLocalResponse\<close>.
\<close>

lemma bot_reply_when_rendering_succeeds:
  assumes "processMessageText cfg = None" and "chatbotPopup page" and "cb_endpoints cfg \<noteq> []"
  shows "\<exists>s'. getBotResponse lower cfg page codec now message s = Inr s'
           \<and> errorsLogged s' = errorsLogged s
           \<and> chatHistory s' = (let h = chatHistory s @ [\<lparr>msg_role = Assistant,
                   msg_content = Canned (getEnhancedResponse lower message), msg_timestamp = now\<rparr>]
                in if length h > cb_maxHistoryItems cfg then slice_last (cb_maxHistoryItems cfg) h else h)"
  using assms
  by (simp add: getBotResponse_def fetchAIResponse_returns addBotMessage_def addMessageToChat_def
        addToPopup_def addMessageToElement_def saveChatHistory_def pushMessage_def Let_def)



lemma handlers_stop_at_addUserMessage:
  assumes "chatMessages page" and "trim inputValue \<noteq> []"
  shows "sendMessage CHATBOT_CONFIG page codec now (Some inputValue) s = Inl (SyntaxError, s)"
    and "popupSendButton_click CHATBOT_CONFIG page codec now (Some inputValue) s
           = Inl (SyntaxError, s)"
  using assms processMessageText_shipped
  by (simp_all add: sendMessage_def popupSendButton_click_def Let_def addUserMessage_def
        addMessageToChat_def addMessageToElement_def)

lemma handlers_stop_on_full_page:
  "sendMessage CHATBOT_CONFIG full_chat_page list_json 7 (Some (js ''hello''))
       (ValleyBot_constructor list_json Map.empty)
     = Inl (SyntaxError, ValleyBot_constructor list_json Map.empty)"
  by (rule handlers_stop_at_addUserMessage)
     (simp_all add: full_chat_page_def trim_def js_def is_js_space_def)





end
